theory Spec2Isabelle
  imports Main "HOL-Library.Word"
begin

section \<open>Entity records (shared/types)\<close>

text \<open>
  The three entity interfaces of the extension. A TypeScript field \<open>f?: T\<close> is a
  \<open>T option\<close> (\<open>None\<close> is \<open>undefined\<close>). Record fields are global names in HOL, so each
  field carries the prefix of its record: \<open>t_\<close> for Tab, \<open>c_\<close> for Collection, \<open>s_\<close> for
  Space. Identifiers and ISO timestamps are strings, \<open>order\<close> is a JavaScript number that
  the stores only ever fill with a list length or a caller-supplied value: an \<open>int\<close>.
\<close>

record tab_meta =
  og_image :: "string option"
  og_description :: "string option"

record tab =
  t_id :: string
  t_collection_id :: string
  t_title :: string
  t_url :: string
  t_favicon :: "string option"
  t_description :: "string option"
  t_order :: int
  t_tags :: "string list option"
  t_created_at :: string
  t_updated_at :: string
  t_synced_at :: "string option"
  t_is_deleted :: "bool option"
  t_meta :: "tab_meta option"

record CreateTabInput =
  cti_collection_id :: string
  cti_title :: string
  cti_url :: string
  cti_favicon :: "string option"
  cti_description :: "string option"
  cti_tags :: "string list option"

text \<open>
  An update input is spread over the stored object (\<open>{...old, ...input}\<close>): a key that
  is absent leaves the field alone, a key that is present overwrites it, also when its
  value is \<open>undefined\<close>. For a field that is optional in the entity the patch therefore
  has three states: \<open>None\<close> (key absent), \<open>Some None\<close> (key present, value
  \<open>undefined\<close>) and \<open>Some (Some v)\<close>. For a field that is required in the entity the
  patch is \<open>None\<close> (absent) or \<open>Some v\<close>. No update input has an \<open>is_deleted\<close> key.
\<close>

record UpdateTabInput =
  uti_title :: "string option"
  uti_url :: "string option"
  uti_favicon :: "string option option"
  uti_description :: "string option option"
  uti_order :: "int option"
  uti_tags :: "string list option option"
  uti_collection_id :: "string option"

datatype view_mode = ListView | GridView

record collection =
  c_id :: string
  c_space_id :: string
  c_name :: string
  c_description :: "string option"
  c_icon :: "string option"
  c_color :: "string option"
  c_order :: int
  c_view_mode :: view_mode
  c_created_at :: string
  c_updated_at :: string
  c_synced_at :: "string option"
  c_is_deleted :: "bool option"

record CreateCollectionInput =
  cci_space_id :: string
  cci_name :: string
  cci_description :: "string option"
  cci_icon :: "string option"
  cci_color :: "string option"

record UpdateCollectionInput =
  uci_name :: "string option"
  uci_description :: "string option option"
  uci_icon :: "string option option"
  uci_color :: "string option option"
  uci_order :: "int option"
  uci_view_mode :: "view_mode option"

record space =
  s_id :: string
  s_name :: string
  s_description :: "string option"
  s_icon :: "string option"
  s_color :: "string option"
  s_order :: int
  s_is_default :: "bool option"
  s_created_at :: string
  s_updated_at :: string
  s_synced_at :: "string option"
  s_is_deleted :: "bool option"

record CreateSpaceInput =
  csi_name :: string
  csi_description :: "string option"
  csi_icon :: "string option"
  csi_color :: "string option"

record UpdateSpaceInput =
  usi_name :: "string option"
  usi_description :: "string option option"
  usi_icon :: "string option option"
  usi_color :: "string option option"
  usi_order :: "int option"

section \<open>JavaScript helpers\<close>

text \<open>\<open>Array.prototype.findIndex\<close>: the first index whose element satisfies the
  predicate; \<open>None\<close> stands for the result \<open>-1\<close>.\<close>

fun findIndex :: "('a \<Rightarrow> bool) \<Rightarrow> 'a list \<Rightarrow> nat option" where
  "findIndex P [] = None"
| "findIndex P (x # xs) =
     (if P x then Some 0 else map_option Suc (findIndex P xs))"

text \<open>\<open>!x\<close> on an optional boolean: \<open>undefined\<close> and \<open>false\<close> are falsy.\<close>

definition truthy_flag :: "bool option \<Rightarrow> bool" where
  "truthy_flag b = (b = Some True)"

text \<open>\<open>a || b\<close> on an optional string: \<open>undefined\<close> and the empty string are falsy.\<close>

definition or_default :: "string option \<Rightarrow> string \<Rightarrow> string" where
  "or_default a d = (case a of None \<Rightarrow> d | Some s \<Rightarrow> if s = [] then d else s)"

text \<open>The spread of a patch key over a field.\<close>

definition spread :: "'a \<Rightarrow> 'a option \<Rightarrow> 'a" where
  "spread old p = (case p of None \<Rightarrow> old | Some v \<Rightarrow> v)"

section \<open>Errors\<close>

text \<open>
  Every \<open>throw\<close> of the stores is a constructor: \<open>TabNotFound\<close> is
  \<open>Error('Tab not found')\<close>, \<open>CollectionNotFound\<close> and \<open>SpaceNotFound\<close> likewise,
  \<open>CollectionFull\<close> is \<open>Error('Collection already has 1000 tabs')\<close>, \<open>TargetFull\<close> is
  \<open>Error('Target collection already has 1000 tabs')\<close>, and \<open>StorageRejected\<close> is the
  rejection of an awaited \<open>chrome.storage.local.set\<close>. An operation returns its outcome
  paired with the state it leaves behind.
\<close>

datatype store_error =
  TabNotFound | CollectionNotFound | SpaceNotFound
| CollectionFull | TargetFull | StorageRejected

section \<open>Tab store (shared/stores/tab-store)\<close>

definition MAX_TABS_PER_COLLECTION :: nat where
  "MAX_TABS_PER_COLLECTION = 1000"

text \<open>
  The zustand state (\<open>tabs\<close>, \<open>isLoading\<close>, \<open>error\<close>) together with the value kept under
  the key \<open>STORAGE_KEYS.TABS\<close> of \<open>chrome.storage.local\<close> (\<open>None\<close>: the key was never
  written). What the environment decides is a parameter of each operation: the identifier
  returned by \<open>generateUUID()\<close>, the string returned by \<open>nowISO()\<close>, and whether the
  storage call succeeds.
\<close>

record tab_store =
  tabs :: "tab list"
  t_isLoading :: bool
  t_error :: "string option"
  t_storage :: "tab list option"

definition tab_store_init :: tab_store where
  "tab_store_init = \<lparr>tabs = [], t_isLoading = False, t_error = None, t_storage = None\<rparr>"

definition loadTabs :: "tab_store \<Rightarrow> bool \<Rightarrow> tab_store" where
  "loadTabs st read_ok =
     (let st1 = st\<lparr>t_isLoading := True, t_error := None\<rparr> in
      if read_ok then
        (let ts = (case t_storage st1 of None \<Rightarrow> [] | Some l \<Rightarrow> l) in
         st1\<lparr>tabs := filter (\<lambda>t. \<not> truthy_flag (t_is_deleted t)) ts,
             t_isLoading := False\<rparr>)
      else st1\<lparr>t_error := Some ''Failed to load tabs'', t_isLoading := False\<rparr>)"

definition getTabsByCollection :: "tab_store \<Rightarrow> string \<Rightarrow> tab list" where
  "getTabsByCollection st collectionId =
     sort_key t_order
       (filter (\<lambda>t. t_collection_id t = collectionId \<and> \<not> truthy_flag (t_is_deleted t))
          (tabs st))"

definition patchTab :: "tab \<Rightarrow> UpdateTabInput \<Rightarrow> string \<Rightarrow> tab" where
  "patchTab old input now =
     old\<lparr>t_title := spread (t_title old) (uti_title input),
         t_url := spread (t_url old) (uti_url input),
         t_favicon := spread (t_favicon old) (uti_favicon input),
         t_description := spread (t_description old) (uti_description input),
         t_order := spread (t_order old) (uti_order input),
         t_tags := spread (t_tags old) (uti_tags input),
         t_collection_id := spread (t_collection_id old) (uti_collection_id input),
         t_updated_at := now\<rparr>"

definition updateTab ::
  "tab_store \<Rightarrow> string \<Rightarrow> UpdateTabInput \<Rightarrow> string \<Rightarrow> bool \<Rightarrow> (store_error + tab) \<times> tab_store"
where
  "updateTab st ident input now write_ok =
     (case findIndex (\<lambda>t. t_id t = ident) (tabs st) of
        None \<Rightarrow> (Inl TabNotFound, st)
      | Some index \<Rightarrow>
          (let updatedTab = patchTab (tabs st ! index) input now;
               updatedTabs = (tabs st)[index := updatedTab]
           in if write_ok
              then (Inr updatedTab, st\<lparr>tabs := updatedTabs, t_storage := Some updatedTabs\<rparr>)
              else (Inl StorageRejected, st)))"

definition no_patch :: UpdateTabInput where
  "no_patch = \<lparr>uti_title = None, uti_url = None, uti_favicon = None,
     uti_description = None, uti_order = None, uti_tags = None, uti_collection_id = None\<rparr>"

definition addTab ::
  "tab_store \<Rightarrow> CreateTabInput \<Rightarrow> string \<Rightarrow> string \<Rightarrow> bool \<Rightarrow> (store_error + tab) \<times> tab_store"
where
  "addTab st input uuid now write_ok =
     (let collectionTabs = filter (\<lambda>t. t_collection_id t = cti_collection_id input) (tabs st)
      in if length collectionTabs \<ge> MAX_TABS_PER_COLLECTION then (Inl CollectionFull, st)
         else
           (case find (\<lambda>t. t_url t = cti_url input) collectionTabs of
              Some existingTab \<Rightarrow>
                updateTab st (t_id existingTab)
                  (no_patch\<lparr>uti_title := Some (cti_title input),
                            uti_favicon := Some (cti_favicon input)\<rparr>) now write_ok
            | None \<Rightarrow>
                (let newTab = \<lparr>t_id = uuid,
                       t_collection_id = cti_collection_id input,
                       t_title = cti_title input,
                       t_url = cti_url input,
                       t_favicon = cti_favicon input,
                       t_description = cti_description input,
                       t_order = int (length collectionTabs),
                       t_tags = cti_tags input,
                       t_created_at = now,
                       t_updated_at = now,
                       t_synced_at = None,
                       t_is_deleted = None,
                       t_meta = None\<rparr>;
                     updatedTabs = tabs st @ [newTab]
                 in if write_ok
                    then (Inr newTab, st\<lparr>tabs := updatedTabs, t_storage := Some updatedTabs\<rparr>)
                    else (Inl StorageRejected, st))))"

definition deleteTab ::
  "tab_store \<Rightarrow> string \<Rightarrow> string \<Rightarrow> bool \<Rightarrow> (store_error + unit) \<times> tab_store"
where
  "deleteTab st ident now write_ok =
     (case findIndex (\<lambda>t. t_id t = ident) (tabs st) of
        None \<Rightarrow> (Inr (), st)
      | Some index \<Rightarrow>
          (let updatedTabs =
                 map (\<lambda>t. if t_id t = ident
                           then t\<lparr>t_is_deleted := Some True, t_updated_at := now\<rparr> else t)
                     (tabs st)
           in if write_ok
              then (Inr (),
                    st\<lparr>tabs := filter (\<lambda>t. \<not> truthy_flag (t_is_deleted t)) updatedTabs,
                       t_storage := Some updatedTabs\<rparr>)
              else (Inl StorageRejected, st)))"

definition moveTab ::
  "tab_store \<Rightarrow> string \<Rightarrow> string \<Rightarrow> string \<Rightarrow> bool \<Rightarrow> (store_error + unit) \<times> tab_store"
where
  "moveTab st ident targetCollectionId now write_ok =
     (case find (\<lambda>t. t_id t = ident) (tabs st) of
        None \<Rightarrow> (Inl TabNotFound, st)
      | Some tab \<Rightarrow>
          (let targetCollectionTabs =
                 filter (\<lambda>t. t_collection_id t = targetCollectionId) (tabs st)
           in if length targetCollectionTabs \<ge> MAX_TABS_PER_COLLECTION
              then (Inl TargetFull, st)
              else
                (case updateTab st ident
                        (no_patch\<lparr>uti_collection_id := Some targetCollectionId,
                                  uti_order := Some (int (length targetCollectionTabs))\<rparr>)
                        now write_ok of
                   (Inl e, st') \<Rightarrow> (Inl e, st')
                 | (Inr updated, st') \<Rightarrow> (Inr (), st'))))"

section \<open>Collection store (shared/stores/collection-store)\<close>

text \<open>The default icon \<open>input.icon || (folder emoji)\<close>: U+1F4C1 in UTF-8.\<close>

definition FOLDER_ICON :: string where
  "FOLDER_ICON = [CHR 0xF0, CHR 0x9F, CHR 0x93, CHR 0x81]"

record collection_store =
  collections :: "collection list"
  c_isLoading :: bool
  c_error :: "string option"
  c_storage :: "collection list option"

definition collection_store_init :: collection_store where
  "collection_store_init =
     \<lparr>collections = [], c_isLoading = False, c_error = None, c_storage = None\<rparr>"

definition loadCollections :: "collection_store \<Rightarrow> bool \<Rightarrow> collection_store" where
  "loadCollections st read_ok =
     (let st1 = st\<lparr>c_isLoading := True, c_error := None\<rparr> in
      if read_ok then
        (let cs = (case c_storage st1 of None \<Rightarrow> [] | Some l \<Rightarrow> l) in
         st1\<lparr>collections := filter (\<lambda>c. \<not> truthy_flag (c_is_deleted c)) cs,
             c_isLoading := False\<rparr>)
      else st1\<lparr>c_error := Some ''Failed to load collections'', c_isLoading := False\<rparr>)"

definition getCollectionsBySpace :: "collection_store \<Rightarrow> string \<Rightarrow> collection list" where
  "getCollectionsBySpace st spaceId =
     sort_key c_order
       (filter (\<lambda>c. c_space_id c = spaceId \<and> \<not> truthy_flag (c_is_deleted c))
          (collections st))"

definition addCollection ::
  "collection_store \<Rightarrow> CreateCollectionInput \<Rightarrow> string \<Rightarrow> string \<Rightarrow> bool
     \<Rightarrow> (store_error + collection) \<times> collection_store"
where
  "addCollection st input uuid now write_ok =
     (let spaceCollections = filter (\<lambda>c. c_space_id c = cci_space_id input) (collections st);
          newCollection = \<lparr>c_id = uuid,
            c_space_id = cci_space_id input,
            c_name = cci_name input,
            c_description = cci_description input,
            c_icon = Some (or_default (cci_icon input) FOLDER_ICON),
            c_color = cci_color input,
            c_order = int (length spaceCollections),
            c_view_mode = ListView,
            c_created_at = now,
            c_updated_at = now,
            c_synced_at = None,
            c_is_deleted = None\<rparr>;
          updatedCollections = collections st @ [newCollection]
      in if write_ok
         then (Inr newCollection,
               st\<lparr>collections := updatedCollections, c_storage := Some updatedCollections\<rparr>)
         else (Inl StorageRejected, st))"

definition patchCollection :: "collection \<Rightarrow> UpdateCollectionInput \<Rightarrow> string \<Rightarrow> collection" where
  "patchCollection old input now =
     old\<lparr>c_name := spread (c_name old) (uci_name input),
         c_description := spread (c_description old) (uci_description input),
         c_icon := spread (c_icon old) (uci_icon input),
         c_color := spread (c_color old) (uci_color input),
         c_order := spread (c_order old) (uci_order input),
         c_view_mode := spread (c_view_mode old) (uci_view_mode input),
         c_updated_at := now\<rparr>"

definition updateCollection ::
  "collection_store \<Rightarrow> string \<Rightarrow> UpdateCollectionInput \<Rightarrow> string \<Rightarrow> bool
     \<Rightarrow> (store_error + collection) \<times> collection_store"
where
  "updateCollection st ident input now write_ok =
     (case findIndex (\<lambda>c. c_id c = ident) (collections st) of
        None \<Rightarrow> (Inl CollectionNotFound, st)
      | Some index \<Rightarrow>
          (let updatedCollection = patchCollection (collections st ! index) input now;
               updatedCollections = (collections st)[index := updatedCollection]
           in if write_ok
              then (Inr updatedCollection,
                    st\<lparr>collections := updatedCollections,
                       c_storage := Some updatedCollections\<rparr>)
              else (Inl StorageRejected, st)))"

definition deleteCollection ::
  "collection_store \<Rightarrow> string \<Rightarrow> string \<Rightarrow> bool \<Rightarrow> (store_error + unit) \<times> collection_store"
where
  "deleteCollection st ident now write_ok =
     (case findIndex (\<lambda>c. c_id c = ident) (collections st) of
        None \<Rightarrow> (Inr (), st)
      | Some index \<Rightarrow>
          (let updatedCollections =
                 map (\<lambda>c. if c_id c = ident
                           then c\<lparr>c_is_deleted := Some True, c_updated_at := now\<rparr> else c)
                     (collections st)
           in if write_ok
              then (Inr (),
                    st\<lparr>collections :=
                         filter (\<lambda>c. \<not> truthy_flag (c_is_deleted c)) updatedCollections,
                       c_storage := Some updatedCollections\<rparr>)
              else (Inl StorageRejected, st)))"

section \<open>Space store (shared/stores/space-store)\<close>

text \<open>
  Beside the list the store keeps the active Space (its identifier and a copy of the
  record) and persists the identifier under \<open>STORAGE_KEYS.ACTIVE_SPACE_ID\<close>.
  \<open>setActiveSpace\<close> does not await its storage write, so a rejection there is never
  seen by the caller: \<open>active_write_ok\<close> only decides whether the key changes.
\<close>

record space_store =
  spaces :: "space list"
  activeSpaceId :: "string option"
  activeSpace :: "space option"
  s_isLoading :: bool
  s_error :: "string option"
  s_storage :: "space list option"
  s_storage_active :: "string option"

definition space_store_init :: space_store where
  "space_store_init =
     \<lparr>spaces = [], activeSpaceId = None, activeSpace = None, s_isLoading = False,
      s_error = None, s_storage = None, s_storage_active = None\<rparr>"

definition loadSpaces :: "space_store \<Rightarrow> bool \<Rightarrow> space_store" where
  "loadSpaces st read_ok =
     (let st1 = st\<lparr>s_isLoading := True, s_error := None\<rparr> in
      if read_ok then
        (let ss = (case s_storage st1 of None \<Rightarrow> [] | Some l \<Rightarrow> l);
             active = s_storage_active st1
         in st1\<lparr>spaces := filter (\<lambda>s. \<not> truthy_flag (s_is_deleted s)) ss,
                activeSpaceId := active,
                activeSpace := find (\<lambda>s. Some (s_id s) = active) ss,
                s_isLoading := False\<rparr>)
      else st1\<lparr>s_error := Some ''Failed to load spaces'', s_isLoading := False\<rparr>)"

definition setActiveSpace :: "space_store \<Rightarrow> string \<Rightarrow> bool \<Rightarrow> space_store" where
  "setActiveSpace st ident active_write_ok =
     (let space = find (\<lambda>s. s_id s = ident) (spaces st);
          st1 = (if active_write_ok then st\<lparr>s_storage_active := Some ident\<rparr> else st)
      in st1\<lparr>activeSpaceId := Some ident, activeSpace := space\<rparr>)"

definition addSpace ::
  "space_store \<Rightarrow> CreateSpaceInput \<Rightarrow> string \<Rightarrow> string \<Rightarrow> bool \<Rightarrow> bool
     \<Rightarrow> (store_error + space) \<times> space_store"
where
  "addSpace st input uuid now write_ok active_write_ok =
     (let newSpace = \<lparr>s_id = uuid,
            s_name = csi_name input,
            s_description = csi_description input,
            s_icon = Some (or_default (csi_icon input) FOLDER_ICON),
            s_color = csi_color input,
            s_order = int (length (spaces st)),
            s_is_default = None,
            s_created_at = now,
            s_updated_at = now,
            s_synced_at = None,
            s_is_deleted = None\<rparr>;
          updatedSpaces = spaces st @ [newSpace]
      in if write_ok
         then (let st1 = st\<lparr>spaces := updatedSpaces, s_storage := Some updatedSpaces\<rparr>
               in (Inr newSpace,
                   if length updatedSpaces = 1
                   then setActiveSpace st1 (s_id newSpace) active_write_ok else st1))
         else (Inl StorageRejected, st))"

definition patchSpace :: "space \<Rightarrow> UpdateSpaceInput \<Rightarrow> string \<Rightarrow> space" where
  "patchSpace old input now =
     old\<lparr>s_name := spread (s_name old) (usi_name input),
         s_description := spread (s_description old) (usi_description input),
         s_icon := spread (s_icon old) (usi_icon input),
         s_color := spread (s_color old) (usi_color input),
         s_order := spread (s_order old) (usi_order input),
         s_updated_at := now\<rparr>"

definition updateSpace ::
  "space_store \<Rightarrow> string \<Rightarrow> UpdateSpaceInput \<Rightarrow> string \<Rightarrow> bool
     \<Rightarrow> (store_error + space) \<times> space_store"
where
  "updateSpace st ident input now write_ok =
     (case findIndex (\<lambda>s. s_id s = ident) (spaces st) of
        None \<Rightarrow> (Inl SpaceNotFound, st)
      | Some index \<Rightarrow>
          (let updatedSpace = patchSpace (spaces st ! index) input now;
               updatedSpaces = (spaces st)[index := updatedSpace]
           in if write_ok
              then (Inr updatedSpace,
                    st\<lparr>spaces := updatedSpaces,
                       s_storage := Some updatedSpaces,
                       activeSpace := (if activeSpaceId st = Some ident
                                       then Some updatedSpace else activeSpace st)\<rparr>)
              else (Inl StorageRejected, st)))"

definition deleteSpace ::
  "space_store \<Rightarrow> string \<Rightarrow> string \<Rightarrow> bool \<Rightarrow> bool \<Rightarrow> (store_error + unit) \<times> space_store"
where
  "deleteSpace st ident now write_ok active_write_ok =
     (case findIndex (\<lambda>s. s_id s = ident) (spaces st) of
        None \<Rightarrow> (Inr (), st)
      | Some index \<Rightarrow>
          (let updatedSpaces =
                 map (\<lambda>s. if s_id s = ident
                           then s\<lparr>s_is_deleted := Some True, s_updated_at := now\<rparr> else s)
                     (spaces st)
           in if write_ok
              then (let visibleSpaces =
                          filter (\<lambda>s. \<not> truthy_flag (s_is_deleted s)) updatedSpaces;
                        st1 = st\<lparr>spaces := visibleSpaces, s_storage := Some updatedSpaces\<rparr>
                    in (Inr (),
                        if activeSpaceId st = Some ident
                        then (case visibleSpaces of
                                nextSpace # rest \<Rightarrow>
                                  setActiveSpace st1 (s_id nextSpace) active_write_ok
                              | [] \<Rightarrow> st1\<lparr>activeSpaceId := None, activeSpace := None\<rparr>)
                        else st1))
              else (Inl StorageRejected, st)))"

section \<open>Session store (shared/stores/auth-store)\<close>

datatype user_status = Pending | Active | Suspended | Deleted

record user =
  uid :: string
  username :: string
  email :: "string option"
  display_name :: "string option"
  avatar_url :: "string option"
  status :: user_status
  created_at :: string

text \<open>
  The session state with the three persisted keys (\<open>auth_user\<close>, \<open>auth_token\<close>,
  \<open>token_expires_at\<close>). Instants are the integers of \<open>Date.now()\<close>, milliseconds since
  the epoch; \<open>now\<close> is the value \<open>Date.now()\<close> returns during the call.
\<close>

record auth_store =
  user :: "user option"
  access_token :: "string option"
  token_expires_at :: "int option"
  is_authenticated :: bool
  is_loading :: bool
  a_storage_user :: "user option"
  a_storage_token :: "string option"
  a_storage_expires :: "int option"

definition auth_store_init :: auth_store where
  "auth_store_init =
     \<lparr>user = None, access_token = None, token_expires_at = None, is_authenticated = False,
      is_loading = True, a_storage_user = None, a_storage_token = None,
      a_storage_expires = None\<rparr>"

text \<open>Truthiness of an optional number and of an optional string.\<close>

definition truthy_num :: "int option \<Rightarrow> bool" where
  "truthy_num n = (case n of None \<Rightarrow> False | Some v \<Rightarrow> v \<noteq> 0)"

definition truthy_str :: "string option \<Rightarrow> bool" where
  "truthy_str s = (case s of None \<Rightarrow> False | Some v \<Rightarrow> v \<noteq> [])"

definition logout :: "auth_store \<Rightarrow> bool \<Rightarrow> (store_error + unit) \<times> auth_store" where
  "logout st remove_ok =
     (if remove_ok
      then (Inr (),
            st\<lparr>a_storage_user := None, a_storage_token := None, a_storage_expires := None,
               user := None, access_token := None, token_expires_at := None,
               is_authenticated := False\<rparr>)
      else (Inl StorageRejected, st))"

definition loadAuth :: "auth_store \<Rightarrow> int \<Rightarrow> bool \<Rightarrow> bool \<Rightarrow> auth_store" where
  "loadAuth st now read_ok remove_ok =
     (let st1 = st\<lparr>is_loading := True\<rparr> in
      if \<not> read_ok then st1\<lparr>is_loading := False\<rparr>
      else
        (let u = a_storage_user st1;
             accessToken = a_storage_token st1;
             tokenExpiresAt = a_storage_expires st1
         in if truthy_num tokenExpiresAt \<and> (case tokenExpiresAt of None \<Rightarrow> False | Some e \<Rightarrow> now > e)
            then (case logout st1 remove_ok of
                    (Inr r, st2) \<Rightarrow> st2
                  | (Inl e, st2) \<Rightarrow> st2\<lparr>is_loading := False\<rparr>)
            else st1\<lparr>user := u, access_token := accessToken,
                     token_expires_at := tokenExpiresAt,
                     is_authenticated := (u \<noteq> None \<and> truthy_str accessToken),
                     is_loading := False\<rparr>))"

text \<open>
  JavaScript numbers are doubles. A product or sum of integer-valued doubles is the exact
  integer as long as that integer has magnitude at most \<open>2^53\<close>; beyond that the result
  is rounded to a neighbouring double, and \<open>setAuth\<close> takes the rounded value
  \<open>Date.now() + expiresIn * 1000\<close> from the environment (\<open>rounded\<close>). \<open>expiresIn\<close>
  is a whole number of seconds.
\<close>

definition exact_double :: "int \<Rightarrow> bool" where
  "exact_double x = (\<bar>x\<bar> \<le> 2 ^ 53)"

definition setAuth ::
  "auth_store \<Rightarrow> user \<Rightarrow> string \<Rightarrow> int \<Rightarrow> int \<Rightarrow> int \<Rightarrow> bool
     \<Rightarrow> (store_error + unit) \<times> auth_store"
where
  "setAuth st u accessToken expiresIn now rounded write_ok =
     (let tokenExpiresAt =
            (if exact_double (expiresIn * 1000) \<and> exact_double (now + expiresIn * 1000)
             then now + expiresIn * 1000 else rounded) in
      if write_ok
      then (Inr (),
            st\<lparr>a_storage_user := Some u, a_storage_token := Some accessToken,
               a_storage_expires := Some tokenExpiresAt,
               user := Some u, access_token := Some accessToken,
               token_expires_at := Some tokenExpiresAt, is_authenticated := True\<rparr>)
      else (Inl StorageRejected, st))"

definition isTokenExpired :: "auth_store \<Rightarrow> int \<Rightarrow> bool" where
  "isTokenExpired st now =
     (if \<not> truthy_num (token_expires_at st) then True
      else (case token_expires_at st of None \<Rightarrow> True | Some e \<Rightarrow> now > e))"

section \<open>Request gateway (shared/api/client)\<close>

text \<open>
  \<open>fetch\<close> is the environment: a function from the request to what comes back, either a
  rejection or a response with its status and its body parsed as JSON (\<open>None\<close>: the body
  is not JSON, \<open>response.json()\<close> rejects). \<open>request\<close> returns its outcome together with
  the list of requests it handed to \<open>fetch\<close>. The body of a request is the value given
  to \<open>JSON.stringify\<close>.
\<close>

datatype json =
  JNull | JBool bool | JNum int | JStr string | JArr "json list" | JObj "(string \<times> json) list"

record http_request =
  rq_method :: string
  rq_url :: string
  rq_headers :: "(string \<times> string) list"
  rq_body :: "json option"

datatype fetch_result = FetchRejected | Response nat "json option"

datatype api_error = ApiError nat json | NetworkFailure | BodyParseFailure

fun headers_set :: "(string \<times> string) list \<Rightarrow> string \<Rightarrow> string \<Rightarrow> (string \<times> string) list" where
  "headers_set [] k v = [(k, v)]"
| "headers_set ((k', v') # hs) k v =
     (if k' = k then (k, v) # hs else (k', v') # headers_set hs k v)"

fun truthy_json :: "json option \<Rightarrow> bool" where
  "truthy_json None = False"
| "truthy_json (Some JNull) = False"
| "truthy_json (Some (JBool b)) = b"
| "truthy_json (Some (JNum n)) = (n \<noteq> 0)"
| "truthy_json (Some (JStr s)) = (s \<noteq> [])"
| "truthy_json (Some (JArr xs)) = True"
| "truthy_json (Some (JObj kvs)) = True"

definition response_ok :: "nat \<Rightarrow> bool" where
  "response_ok st = (200 \<le> st \<and> st \<le> 299)"

definition send ::
  "(http_request \<Rightarrow> fetch_result) \<Rightarrow> http_request \<Rightarrow> (api_error + json) \<times> http_request list"
where
  "send fetch rq =
     (case fetch rq of
        FetchRejected \<Rightarrow> (Inl NetworkFailure, [rq])
      | Response st body \<Rightarrow>
          if \<not> response_ok st
          then (Inl (ApiError st (case body of None \<Rightarrow> JObj [] | Some j \<Rightarrow> j)), [rq])
          else if st = 204 then (Inr (JObj []), [rq])
          else (case body of None \<Rightarrow> (Inl BodyParseFailure, [rq]) | Some j \<Rightarrow> (Inr j, [rq])))"

definition request ::
  "string \<Rightarrow> auth_store \<Rightarrow> int \<Rightarrow> (http_request \<Rightarrow> fetch_result) \<Rightarrow>
   string \<Rightarrow> string \<Rightarrow> json option \<Rightarrow> bool option \<Rightarrow> (api_error + json) \<times> http_request list"
where
  "request baseUrl auth now fetch method endpoint data requiresAuth =
     (let url = baseUrl @ endpoint;
          headers = [(''Content-Type'', ''application/json'')];
          body = (if truthy_json data then data else None)
      in if truthy_flag requiresAuth
         then (case access_token auth of
                 None \<Rightarrow> (Inl (ApiError 401 (JObj [(''message'', JStr ''Not authenticated'')])), [])
               | Some tok \<Rightarrow>
                   if tok = [] \<or> isTokenExpired auth now
                   then (Inl (ApiError 401 (JObj [(''message'', JStr ''Not authenticated'')])), [])
                   else send fetch
                          \<lparr>rq_method = method, rq_url = url,
                           rq_headers = headers_set headers ''Authorization'' (''Bearer '' @ tok),
                           rq_body = body\<rparr>)
         else send fetch
                \<lparr>rq_method = method, rq_url = url, rq_headers = headers, rq_body = body\<rparr>)"

section \<open>Signed request protocol (shared/utils/signature)\<close>

text \<open>
  \<open>Number.prototype.toString(radix)\<close> on a non-negative integer, digits in lower case.
  The source uses radix 16 on bytes and radix 10 (the template string) on \<open>authAt\<close>;
  the guard \<open>r < 2\<close> only makes the recursion total.
\<close>

definition digitChar :: "nat \<Rightarrow> char" where
  "digitChar d = ''0123456789abcdefghijklmnopqrstuvwxyz'' ! d"

function toStringRadix :: "nat \<Rightarrow> nat \<Rightarrow> string" where
  "toStringRadix r n =
     (if r < 2 \<or> n < r then [digitChar n]
      else toStringRadix r (n div r) @ [digitChar (n mod r)])"
  by pat_completeness auto
termination
  by (relation "measure snd") auto

declare toStringRadix.simps [simp del]

text \<open>
  \<open>authAt\<close> is a JavaScript number, and the template string renders it with
  \<open>Number::toString\<close>. An integer of magnitude below \<open>2^53\<close> is printed as its decimal
  digits, after a minus sign when it is negative. A larger integer is printed with the
  shortest digits that read back as the same double, padded with zeros, and in exponent
  notation from \<open>10^21\<close> on: that rendering is the parameter \<open>render\<close>. Any other
  number (a fraction, \<open>NaN\<close>, an infinity) is given by the string that
  \<open>Number::toString\<close> prints for it.
\<close>

datatype js_number = JsInteger int | JsOther string

definition numberToString :: "(int \<Rightarrow> string) \<Rightarrow> js_number \<Rightarrow> string" where
  "numberToString render x =
     (case x of
        JsInteger k \<Rightarrow>
          if \<bar>k\<bar> < 2 ^ 53
          then (if k < 0 then CHR ''-'' # toStringRadix 10 (nat (- k))
                else toStringRadix 10 (nat k))
          else render k
      | JsOther printed \<Rightarrow> printed)"

definition padStart :: "nat \<Rightarrow> char \<Rightarrow> string \<Rightarrow> string" where
  "padStart n c s = replicate (n - length s) c @ s"

text \<open>Strings are kept as their UTF-8 bytes, so \<open>TextEncoder.encode\<close> only retypes.\<close>

definition encode :: "string \<Rightarrow> 8 word list" where
  "encode s = map (\<lambda>c. word_of_nat (of_char c)) s"

definition SIGNATURE_SECRET :: "string option \<Rightarrow> string" where
  "SIGNATURE_SECRET env = or_default env ''default_secret_key''"

text \<open>
  \<open>crypto.subtle\<close> belongs to the browser: the keyed hash \<open>sign\<close> (key bytes, message
  bytes) is a parameter, as is the build-time variable \<open>VITE_SIGNATURE_SECRET\<close>.
\<close>

definition generateSignature ::
  "(8 word list \<Rightarrow> 8 word list \<Rightarrow> 8 word list) \<Rightarrow> (int \<Rightarrow> string) \<Rightarrow> string option \<Rightarrow>
   string \<Rightarrow> string \<Rightarrow> js_number \<Rightarrow> string \<Rightarrow> string"
where
  "generateSignature sign render env mail nonce authAt purpose =
     (let message = mail @ '':'' @ nonce @ '':'' @ numberToString render authAt @ '':'' @ purpose;
          keyData = encode (SIGNATURE_SECRET env);
          messageData = encode message;
          signature = sign keyData messageData
      in concat (map (\<lambda>b. padStart 2 (CHR ''0'') (toStringRadix 16 (unat b))) signature))"

section \<open>Sequences of operations\<close>

text \<open>
  A call of a store action with everything the environment contributes to it. A step
  keeps the state the action leaves behind, whether it returned or threw; a run starts
  from the state the store is created with.
\<close>

datatype tab_op =
  LoadTabs bool
| AddTab CreateTabInput string string bool
| UpdateTab string UpdateTabInput string bool
| DeleteTab string string bool
| MoveTab string string string bool

fun tab_step :: "tab_store \<Rightarrow> tab_op \<Rightarrow> tab_store" where
  "tab_step st (LoadTabs r) = loadTabs st r"
| "tab_step st (AddTab i u n w) = snd (addTab st i u n w)"
| "tab_step st (UpdateTab k i n w) = snd (updateTab st k i n w)"
| "tab_step st (DeleteTab k n w) = snd (deleteTab st k n w)"
| "tab_step st (MoveTab k c n w) = snd (moveTab st k c n w)"

definition tab_run :: "tab_op list \<Rightarrow> tab_store" where
  "tab_run ops = foldl tab_step tab_store_init ops"

datatype collection_op =
  LoadCollections bool
| AddCollection CreateCollectionInput string string bool
| UpdateCollection string UpdateCollectionInput string bool
| DeleteCollection string string bool

fun collection_step :: "collection_store \<Rightarrow> collection_op \<Rightarrow> collection_store" where
  "collection_step st (LoadCollections r) = loadCollections st r"
| "collection_step st (AddCollection i u n w) = snd (addCollection st i u n w)"
| "collection_step st (UpdateCollection k i n w) = snd (updateCollection st k i n w)"
| "collection_step st (DeleteCollection k n w) = snd (deleteCollection st k n w)"

definition collection_run :: "collection_op list \<Rightarrow> collection_store" where
  "collection_run ops = foldl collection_step collection_store_init ops"

datatype space_op =
  LoadSpaces bool
| AddSpace CreateSpaceInput string string bool bool
| UpdateSpace string UpdateSpaceInput string bool
| DeleteSpace string string bool bool
| SetActiveSpace string bool

fun space_step :: "space_store \<Rightarrow> space_op \<Rightarrow> space_store" where
  "space_step st (LoadSpaces r) = loadSpaces st r"
| "space_step st (AddSpace i u n w a) = snd (addSpace st i u n w a)"
| "space_step st (UpdateSpace k i n w) = snd (updateSpace st k i n w)"
| "space_step st (DeleteSpace k n w a) = snd (deleteSpace st k n w a)"
| "space_step st (SetActiveSpace k a) = setActiveSpace st k a"

definition space_run :: "space_op list \<Rightarrow> space_store" where
  "space_run ops = foldl space_step space_store_init ops"


section \<open>The invariant of the published lists\<close>

text \<open>No record of the published list carries \<open>is_deleted = true\<close>.\<close>

definition tabs_visible :: "tab_store \<Rightarrow> bool" where
  "tabs_visible st = (\<forall>t \<in> set (tabs st). t_is_deleted t \<noteq> Some True)"

definition collections_visible :: "collection_store \<Rightarrow> bool" where
  "collections_visible st = (\<forall>c \<in> set (collections st). c_is_deleted c \<noteq> Some True)"

definition spaces_visible :: "space_store \<Rightarrow> bool" where
  "spaces_visible st = (\<forall>s \<in> set (spaces st). s_is_deleted s \<noteq> Some True)"

section \<open>Reading a signature back\<close>

text \<open>
  The words of the specification, as decoders: the value of a lower-case hexadecimal
  digit, the bytes a string of such digits encodes (two digits a byte, high digit first),
  and the number a string of decimal digits denotes.
\<close>

definition hex_value :: "char \<Rightarrow> nat option" where
  "hex_value c =
     (let n = (of_char c :: nat) in
      if 48 \<le> n \<and> n \<le> 57 then Some (n - 48)
      else if 97 \<le> n \<and> n \<le> 102 then Some (n - 87)
      else None)"

fun hex_decode :: "string \<Rightarrow> 8 word list option" where
  "hex_decode [] = Some []"
| "hex_decode [c] = None"
| "hex_decode (hi # lo # rest) =
     (case (hex_value hi, hex_value lo, hex_decode rest) of
        (Some h, Some l, Some bs) \<Rightarrow> Some (word_of_nat (16 * h + l) # bs)
      | _ \<Rightarrow> None)"

definition decimal_digit :: "char \<Rightarrow> nat option" where
  "decimal_digit c =
     (let n = (of_char c :: nat) in if 48 \<le> n \<and> n \<le> 57 then Some (n - 48) else None)"

fun decimal_value_from :: "nat \<Rightarrow> string \<Rightarrow> nat option" where
  "decimal_value_from acc [] = Some acc"
| "decimal_value_from acc (c # cs) =
     (case decimal_digit c of
        None \<Rightarrow> None
      | Some d \<Rightarrow> decimal_value_from (10 * acc + d) cs)"

text \<open>A decimal numeral: at least one digit, no leading zero except for zero itself.\<close>

definition decimal_value :: "string \<Rightarrow> nat option" where
  "decimal_value s =
     (if s = [] \<or> (length s > 1 \<and> hd s = CHR ''0'') then None else decimal_value_from 0 s)"

section \<open>Sample data\<close>

text \<open>
  Concrete states and inputs at which the theorems below are evaluated: a Collection
  \<open>col-1\<close> holding the Tabs \<open>tab-0\<close>, \<open>tab-1\<close>, ... with distinct URLs, full at 1000
  or holding two; inputs for that Collection; and a signed-in session.
\<close>

definition sample_tab :: "nat \<Rightarrow> tab" where
  "sample_tab n =
     \<lparr>t_id = ''tab-'' @ toStringRadix 10 n,
      t_collection_id = ''col-1'',
      t_title = ''Page'',
      t_url = ''https://example.test/'' @ toStringRadix 10 n,
      t_favicon = Some ''https://example.test/favicon.ico'',
      t_description = None,
      t_order = int n,
      t_tags = None,
      t_created_at = ''2025-01-01T00:00:00.000Z'',
      t_updated_at = ''2025-01-01T00:00:00.000Z'',
      t_synced_at = None,
      t_is_deleted = None,
      t_meta = None\<rparr>"

definition sample_input :: "string \<Rightarrow> string \<Rightarrow> CreateTabInput" where
  "sample_input url title =
     \<lparr>cti_collection_id = ''col-1'', cti_title = title, cti_url = url,
      cti_favicon = None, cti_description = None, cti_tags = None\<rparr>"

definition store_of :: "tab list \<Rightarrow> tab_store" where
  "store_of ts = \<lparr>tabs = ts, t_isLoading = False, t_error = None, t_storage = Some ts\<rparr>"

definition full_store :: tab_store where
  "full_store = store_of (map sample_tab [0..<1000])"

definition two_store :: tab_store where
  "two_store = store_of [sample_tab 0, sample_tab 1]"

definition sample_collection_input :: CreateCollectionInput where
  "sample_collection_input =
     \<lparr>cci_space_id = ''space-1'', cci_name = ''Research'', cci_description = None,
      cci_icon = None, cci_color = None\<rparr>"

definition sample_space_input :: CreateSpaceInput where
  "sample_space_input =
     \<lparr>csi_name = ''Work'', csi_description = None, csi_icon = None, csi_color = None\<rparr>"

definition tab_a :: tab where
  "tab_a =
     \<lparr>t_id = ''tab-a'', t_collection_id = ''col-1'', t_title = ''A'',
      t_url = ''https://a.test'', t_favicon = None, t_description = None, t_order = 0,
      t_tags = None, t_created_at = ''2025-01-02T00:00:00.000Z'',
      t_updated_at = ''2025-01-02T00:00:00.000Z'', t_synced_at = None,
      t_is_deleted = None, t_meta = None\<rparr>"

definition tab_b :: tab where
  "tab_b =
     \<lparr>t_id = ''tab-b'', t_collection_id = ''col-1'', t_title = ''B'',
      t_url = ''https://b.test'', t_favicon = None, t_description = None, t_order = 0,
      t_tags = None, t_created_at = ''2025-01-04T00:00:00.000Z'',
      t_updated_at = ''2025-01-04T00:00:00.000Z'', t_synced_at = None,
      t_is_deleted = None, t_meta = None\<rparr>"

text \<open>Tab A is saved and then deleted; later Tab B is saved.\<close>

definition add_then_delete :: "tab_op list" where
  "add_then_delete =
     [AddTab (sample_input ''https://a.test'' ''A'') ''tab-a'' ''2025-01-02T00:00:00.000Z'' True,
      DeleteTab ''tab-a'' ''2025-01-03T00:00:00.000Z'' True]"

definition add_delete_add :: "tab_op list" where
  "add_delete_add =
     add_then_delete @
     [AddTab (sample_input ''https://b.test'' ''B'') ''tab-b'' ''2025-01-04T00:00:00.000Z'' True]"




definition fetch_no_content :: "http_request \<Rightarrow> fetch_result" where
  "fetch_no_content rq = Response 204 None"

definition signed_in :: auth_store where
  "signed_in = auth_store_init\<lparr>access_token := Some ''token-1'',
     token_expires_at := Some 1700003600000, is_authenticated := True, is_loading := False\<rparr>"







text \<open>
  A stand-in for the keyed hash with 32 bytes of output (the key, then the message, cut or
  padded to 32 bytes, so that both show in the output), and a stand-in for the rendering
  of integers from \<open>2^53\<close> on, to evaluate \<open>generateSignature\<close> at concrete inputs.
\<close>

definition sign_32 :: "8 word list \<Rightarrow> 8 word list \<Rightarrow> 8 word list" where
  "sign_32 key msg = take 32 (key @ msg @ replicate 32 0)"

definition no_render :: "int \<Rightarrow> string" where
  "no_render k = ''''"

section \<open>Facts about the helpers\<close>

lemma filter_conj_length_le:
  "length (filter (\<lambda>x. P x \<and> Q x) xs) \<le> length (filter P xs)"
  by (induction xs) auto

section \<open>Capacity\<close>

text \<open>
  C5. Adding a Tab whose URL is not among the non-deleted Tabs of its Collection, when
  that Collection holds 1000 non-deleted Tabs in the store, fails with the capacity error
  whatever the storage would have answered, and leaves the state untouched: the published
  list and the persisted value are the ones before the call.
\<close>

theorem addTab_capacity_unchanged:
  assumes "length (filter (\<lambda>t. t_collection_id t = cti_collection_id input
                               \<and> \<not> truthy_flag (t_is_deleted t)) (tabs st)) = 1000"
    and "cti_url input \<notin> t_url ` {t \<in> set (tabs st).
            t_collection_id t = cti_collection_id input \<and> \<not> truthy_flag (t_is_deleted t)}"
  shows "addTab st input uuid now write_ok = (Inl CollectionFull, st)"
proof -
  have "1000 \<le> length (filter (\<lambda>t. t_collection_id t = cti_collection_id input) (tabs st))"
    using assms(1)
      filter_conj_length_le [of "\<lambda>t. t_collection_id t = cti_collection_id input"
        "\<lambda>t. \<not> truthy_flag (t_is_deleted t)" "tabs st"]
    by simp
  then show ?thesis
    by (simp add: addTab_def MAX_TABS_PER_COLLECTION_def)
qed

theorem addTab_capacity_unchanged_witness:
  "length (filter (\<lambda>t. t_collection_id t
                        = cti_collection_id (sample_input ''https://other.test/'' ''Other'')
                       \<and> \<not> truthy_flag (t_is_deleted t)) (tabs full_store)) = 1000
   \<and> cti_url (sample_input ''https://other.test/'' ''Other'')
       \<notin> t_url ` {t \<in> set (tabs full_store).
            t_collection_id t = cti_collection_id (sample_input ''https://other.test/'' ''Other'')
            \<and> \<not> truthy_flag (t_is_deleted t)}
   \<and> addTab full_store (sample_input ''https://other.test/'' ''Other'') ''tab-new''
        ''2025-01-02T00:00:00.000Z'' True = (Inl CollectionFull, full_store)"
proof -
  have h1: "length (filter (\<lambda>t. t_collection_id t
                        = cti_collection_id (sample_input ''https://other.test/'' ''Other'')
                       \<and> \<not> truthy_flag (t_is_deleted t)) (tabs full_store)) = 1000"
    by (simp add: full_store_def store_of_def filter_map comp_def sample_tab_def
        sample_input_def truthy_flag_def)
  have h2: "cti_url (sample_input ''https://other.test/'' ''Other'')
       \<notin> t_url ` {t \<in> set (tabs full_store).
            t_collection_id t = cti_collection_id (sample_input ''https://other.test/'' ''Other'')
            \<and> \<not> truthy_flag (t_is_deleted t)}"
  proof -
    have "t_url t \<noteq> ''https://other.test/''" if "t \<in> set (tabs full_store)" for t
    proof -
      from that obtain n where "t = sample_tab n"
        by (auto simp: full_store_def store_of_def)
      then show ?thesis by (simp add: sample_tab_def)
    qed
    then show ?thesis by (fastforce simp: sample_input_def)
  qed
  show ?thesis
    by (rule conjI [OF h1 conjI [OF h2 addTab_capacity_unchanged [OF h1 h2]]])
qed

section \<open>Token expiry\<close>

text \<open>
  C2, as stated, at the boundary: with the expiry recorded as the very instant
  \<open>Date.now()\<close> returns, \<open>isTokenExpired\<close> answers false (the comparison is
  \<open>Date.now() > token_expires_at\<close>).
\<close>

theorem isTokenExpired_boundary_counterexample:
  "\<not> isTokenExpired (auth_store_init\<lparr>token_expires_at := Some 1700000000000\<rparr>) 1700000000000"
  by (simp add: isTokenExpired_def truthy_num_def)

text \<open>
  C2, amended. \<open>isTokenExpired\<close> is true exactly when no expiry is recorded, or the
  recorded expiry is the falsy number 0, or the recorded expiry is strictly before the
  current time.
\<close>

theorem isTokenExpired_iff:
  "isTokenExpired st now \<longleftrightarrow>
     (token_expires_at st = None \<or> token_expires_at st = Some 0
      \<or> (\<exists>e. token_expires_at st = Some e \<and> e < now))"
  by (auto simp: isTokenExpired_def truthy_num_def split: option.splits)

section \<open>Moving a Tab within its own Collection\<close>

lemma findIndex_None_iff: "findIndex P xs = None \<longleftrightarrow> (\<forall>x\<in>set xs. \<not> P x)"
  by (induction xs) auto

lemma findIndex_Some_D:
  "findIndex P xs = Some i \<Longrightarrow> i < length xs \<and> P (xs ! i) \<and> (\<forall>j<i. \<not> P (xs ! j))"
proof (induction xs arbitrary: i)
  case Nil
  then show ?case by simp
next
  case (Cons x xs)
  then show ?case
    by (auto split: if_splits simp: nth_Cons split: nat.splits)
qed

lemma find_as_findIndex:
  "find P xs = (case findIndex P xs of None \<Rightarrow> None | Some i \<Rightarrow> Some (xs ! i))"
  by (induction xs) (auto split: option.splits)

text \<open>
  C10. \<open>moveTab\<close> towards the Collection the Tab is already in counts the Tab among the
  destination's Tabs (so the count \<open>n\<close> is at least 1). With 1000 of them the call
  throws the capacity error and changes nothing, whatever the storage would answer;
  below 1000, and the write succeeding, the Tab, at its place \<open>i\<close> in the list, gets the
  order \<open>n\<close>, itself included, and a new update stamp, and nothing else changes.
\<close>

theorem moveTab_same_collection:
  assumes "find (\<lambda>t. t_id t = ident) (tabs st) = Some tab"
    and "t_collection_id tab = target"
  shows "let n = length (filter (\<lambda>t. t_collection_id t = target) (tabs st)) in
         0 < n \<and>
         (if 1000 \<le> n then moveTab st ident target now write_ok = (Inl TargetFull, st)
          else \<exists>i < length (tabs st).
                 tabs st ! i = tab \<and>
                 moveTab st ident target now True =
                   (Inr (),
                    st\<lparr>tabs := (tabs st)[i := tab\<lparr>t_order := int n, t_updated_at := now\<rparr>],
                       t_storage :=
                         Some ((tabs st)[i := tab\<lparr>t_order := int n, t_updated_at := now\<rparr>])\<rparr>))"
proof -
  obtain i where i: "findIndex (\<lambda>t. t_id t = ident) (tabs st) = Some i" "tabs st ! i = tab"
    using assms(1) by (auto simp: find_as_findIndex split: option.splits)
  then have il: "i < length (tabs st)" using findIndex_Some_D by fastforce
  have mem: "tab \<in> set (filter (\<lambda>t. t_collection_id t = target) (tabs st))"
    using i(2) il assms(2) by auto
  then have pos: "0 < length (filter (\<lambda>t. t_collection_id t = target) (tabs st))"
    by (cases "filter (\<lambda>t. t_collection_id t = target) (tabs st)") auto
  have p: "patchTab tab (no_patch\<lparr>uti_collection_id := Some target, uti_order := Some k\<rparr>) now
       = tab\<lparr>t_order := k, t_updated_at := now\<rparr>" for k
    using assms(2) by (simp add: patchTab_def no_patch_def spread_def)
  let ?n = "length (filter (\<lambda>t. t_collection_id t = target) (tabs st))"
  show ?thesis
  proof (cases "1000 \<le> ?n")
    case True
    then show ?thesis
      using pos assms(1) by (simp add: Let_def moveTab_def MAX_TABS_PER_COLLECTION_def)
  next
    case False
    have "moveTab st ident target now True =
           (Inr (), st\<lparr>tabs := (tabs st)[i := tab\<lparr>t_order := int ?n, t_updated_at := now\<rparr>],
              t_storage := Some ((tabs st)[i := tab\<lparr>t_order := int ?n, t_updated_at := now\<rparr>])\<rparr>)"
      using False assms(1) i p [of "int ?n"]
      by (simp add: Let_def moveTab_def updateTab_def MAX_TABS_PER_COLLECTION_def)
    then show ?thesis
      using False pos il i(2) by (simp add: Let_def) blast
  qed
qed

lemma toStringRadix_10_small:
  "toStringRadix 10 0 = ''0''" "toStringRadix 10 (Suc 0) = ''1''" "toStringRadix 10 1 = ''1''"
  by (simp_all add: toStringRadix.simps [of 10 0] toStringRadix.simps [of 10 "Suc 0"]
      digitChar_def)

lemma two_store_tabs: "tabs two_store = [sample_tab 0, sample_tab 1]"
  by (simp add: two_store_def store_of_def)

theorem moveTab_same_collection_witness:
  "find (\<lambda>t. t_id t = ''tab-1'') (tabs two_store) = Some (sample_tab 1)
   \<and> t_collection_id (sample_tab 1) = ''col-1''
   \<and> length (filter (\<lambda>t. t_collection_id t = ''col-1'') (tabs two_store)) = 2
   \<and> (\<exists>i<length (tabs two_store). tabs two_store ! i = sample_tab 1 \<and>
       moveTab two_store ''tab-1'' ''col-1'' ''2025-01-02T00:00:00.000Z'' True =
       (Inr (),
        two_store\<lparr>tabs := (tabs two_store)[i := (sample_tab 1)\<lparr>t_order := 2,
                     t_updated_at := ''2025-01-02T00:00:00.000Z''\<rparr>],
           t_storage := Some ((tabs two_store)[i := (sample_tab 1)\<lparr>t_order := 2,
                     t_updated_at := ''2025-01-02T00:00:00.000Z''\<rparr>])\<rparr>))"
proof -
  have h1: "find (\<lambda>t. t_id t = ''tab-1'') (tabs two_store) = Some (sample_tab 1)"
    by (simp add: two_store_tabs sample_tab_def toStringRadix_10_small)
  have h2: "t_collection_id (sample_tab 1) = ''col-1''"
    by (simp add: sample_tab_def)
  have n: "length (filter (\<lambda>t. t_collection_id t = ''col-1'') (tabs two_store)) = 2"
    by (simp add: two_store_tabs sample_tab_def)
  show ?thesis
    using moveTab_same_collection [OF h1 h2, of "''2025-01-02T00:00:00.000Z''" True] h1 h2
    unfolding n Let_def by simp
qed

section \<open>Published lists hold no deleted record\<close>

lemma patchTab_is_deleted: "t_is_deleted (patchTab t input now) = t_is_deleted t"
  by (simp add: patchTab_def)

lemma updateTab_visible:
  assumes "tabs_visible st"
  shows "tabs_visible (snd (updateTab st k input now w))"
proof (cases "findIndex (\<lambda>t. t_id t = k) (tabs st)")
  case None
  then show ?thesis using assms by (simp add: updateTab_def)
next
  case (Some i)
  then have "i < length (tabs st)" using findIndex_Some_D by fastforce
  then have "t_is_deleted (tabs st ! i) \<noteq> Some True"
    using assms by (simp add: tabs_visible_def)
  then have "\<forall>t \<in> set ((tabs st)[i := patchTab (tabs st ! i) input now]).
               t_is_deleted t \<noteq> Some True"
    using assms set_update_subset_insert [of "tabs st" i "patchTab (tabs st ! i) input now"]
    by (auto simp: tabs_visible_def patchTab_is_deleted)
  then show ?thesis
    using Some assms by (simp add: updateTab_def Let_def tabs_visible_def)
qed

lemma addTab_visible:
  assumes "tabs_visible st"
  shows "tabs_visible (snd (addTab st input u now w))"
proof -
  have "tabs_visible (snd (updateTab st k p now w))" for k p
    using assms by (rule updateTab_visible)
  then show ?thesis
    using assms
    by (auto simp: addTab_def Let_def tabs_visible_def split: option.splits)
qed

lemma deleteTab_visible:
  assumes "tabs_visible st"
  shows "tabs_visible (snd (deleteTab st k now w))"
  using assms
  by (auto simp: deleteTab_def Let_def tabs_visible_def truthy_flag_def split: option.splits)

lemma moveTab_visible:
  assumes "tabs_visible st"
  shows "tabs_visible (snd (moveTab st k c now w))"
proof -
  have "tabs_visible (snd (updateTab st k p now w))" for p
    using assms by (rule updateTab_visible)
  then show ?thesis
    using assms
    by (auto simp: moveTab_def Let_def split: option.splits prod.splits sum.splits)
      (metis snd_conv)+
qed

lemma loadTabs_visible:
  assumes "tabs_visible st"
  shows "tabs_visible (loadTabs st r)"
  using assms
  by (auto simp: loadTabs_def Let_def tabs_visible_def truthy_flag_def split: option.splits)

lemma tab_step_visible: "tabs_visible st \<Longrightarrow> tabs_visible (tab_step st op)"
  by (cases op)
    (simp_all add: loadTabs_visible addTab_visible updateTab_visible deleteTab_visible
      moveTab_visible)

lemma foldl_tab_step_visible:
  "tabs_visible st \<Longrightarrow> tabs_visible (foldl tab_step st ops)"
  by (induction ops arbitrary: st) (simp_all add: tab_step_visible)

lemma tab_run_visible: "tabs_visible (tab_run ops)"
  unfolding tab_run_def
  by (rule foldl_tab_step_visible) (simp add: tabs_visible_def tab_store_init_def)

lemma patchCollection_is_deleted:
  "c_is_deleted (patchCollection c input now) = c_is_deleted c"
  by (simp add: patchCollection_def)

lemma updateCollection_visible:
  assumes "collections_visible st"
  shows "collections_visible (snd (updateCollection st k input now w))"
proof (cases "findIndex (\<lambda>c. c_id c = k) (collections st)")
  case None
  then show ?thesis using assms by (simp add: updateCollection_def)
next
  case (Some i)
  then have "i < length (collections st)" using findIndex_Some_D by fastforce
  then have "c_is_deleted (collections st ! i) \<noteq> Some True"
    using assms by (simp add: collections_visible_def)
  then have "\<forall>c \<in> set ((collections st)[i := patchCollection (collections st ! i) input now]).
               c_is_deleted c \<noteq> Some True"
    using assms
      set_update_subset_insert [of "collections st" i
        "patchCollection (collections st ! i) input now"]
    by (auto simp: collections_visible_def patchCollection_is_deleted)
  then show ?thesis
    using Some assms by (simp add: updateCollection_def Let_def collections_visible_def)
qed

lemma addCollection_visible:
  assumes "collections_visible st"
  shows "collections_visible (snd (addCollection st input u now w))"
  using assms by (auto simp: addCollection_def Let_def collections_visible_def)

lemma deleteCollection_visible:
  assumes "collections_visible st"
  shows "collections_visible (snd (deleteCollection st k now w))"
  using assms
  by (auto simp: deleteCollection_def Let_def collections_visible_def truthy_flag_def
      split: option.splits)

lemma loadCollections_visible:
  assumes "collections_visible st"
  shows "collections_visible (loadCollections st r)"
  using assms
  by (auto simp: loadCollections_def Let_def collections_visible_def truthy_flag_def
      split: option.splits)

lemma collection_step_visible:
  "collections_visible st \<Longrightarrow> collections_visible (collection_step st op)"
  by (cases op)
    (simp_all add: loadCollections_visible addCollection_visible updateCollection_visible
      deleteCollection_visible)

lemma foldl_collection_step_visible:
  "collections_visible st \<Longrightarrow> collections_visible (foldl collection_step st ops)"
  by (induction ops arbitrary: st) (simp_all add: collection_step_visible)

lemma collection_run_visible: "collections_visible (collection_run ops)"
  unfolding collection_run_def
  by (rule foldl_collection_step_visible)
    (simp add: collections_visible_def collection_store_init_def)

lemma patchSpace_is_deleted: "s_is_deleted (patchSpace s input now) = s_is_deleted s"
  by (simp add: patchSpace_def)

lemma setActiveSpace_spaces: "spaces (setActiveSpace st k a) = spaces st"
  by (simp add: setActiveSpace_def Let_def)

lemma updateSpace_visible:
  assumes "spaces_visible st"
  shows "spaces_visible (snd (updateSpace st k input now w))"
proof (cases "findIndex (\<lambda>s. s_id s = k) (spaces st)")
  case None
  then show ?thesis using assms by (simp add: updateSpace_def)
next
  case (Some i)
  then have "i < length (spaces st)" using findIndex_Some_D by fastforce
  then have "s_is_deleted (spaces st ! i) \<noteq> Some True"
    using assms by (simp add: spaces_visible_def)
  then have "\<forall>s \<in> set ((spaces st)[i := patchSpace (spaces st ! i) input now]).
               s_is_deleted s \<noteq> Some True"
    using assms set_update_subset_insert [of "spaces st" i "patchSpace (spaces st ! i) input now"]
    by (auto simp: spaces_visible_def patchSpace_is_deleted)
  then show ?thesis
    using Some assms by (simp add: updateSpace_def Let_def spaces_visible_def)
qed

lemma addSpace_visible:
  assumes "spaces_visible st"
  shows "spaces_visible (snd (addSpace st input u now w a))"
  using assms
  by (auto simp: addSpace_def Let_def spaces_visible_def setActiveSpace_spaces)

lemma deleteSpace_spaces:
  "spaces (snd (deleteSpace st k now w a)) =
     (if w \<and> findIndex (\<lambda>s. s_id s = k) (spaces st) \<noteq> None
      then filter (\<lambda>s. \<not> truthy_flag (s_is_deleted s))
             (map (\<lambda>s. if s_id s = k
                       then s\<lparr>s_is_deleted := Some True, s_updated_at := now\<rparr> else s)
                (spaces st))
      else spaces st)"
  by (simp add: deleteSpace_def Let_def setActiveSpace_spaces
      split: option.splits list.splits)

lemma deleteSpace_visible:
  assumes "spaces_visible st"
  shows "spaces_visible (snd (deleteSpace st k now w a))"
  using assms
  by (auto simp: deleteSpace_spaces spaces_visible_def truthy_flag_def)

lemma loadSpaces_visible:
  assumes "spaces_visible st"
  shows "spaces_visible (loadSpaces st r)"
  using assms
  by (auto simp: loadSpaces_def Let_def spaces_visible_def truthy_flag_def
      split: option.splits)

lemma setActiveSpace_visible:
  "spaces_visible st \<Longrightarrow> spaces_visible (setActiveSpace st k a)"
  by (simp add: spaces_visible_def setActiveSpace_spaces)

lemma space_step_visible: "spaces_visible st \<Longrightarrow> spaces_visible (space_step st op)"
  by (cases op)
    (simp_all add: loadSpaces_visible addSpace_visible updateSpace_visible deleteSpace_visible
      setActiveSpace_visible)

lemma foldl_space_step_visible:
  "spaces_visible st \<Longrightarrow> spaces_visible (foldl space_step st ops)"
  by (induction ops arbitrary: st) (simp_all add: space_step_visible)

lemma space_run_visible: "spaces_visible (space_run ops)"
  unfolding space_run_def
  by (rule foldl_space_step_visible) (simp add: spaces_visible_def space_store_init_def)

text \<open>
  C9. In each of the three stores every action (load, add, update, delete, and for Tabs
  move; for Spaces also the choice of the active Space) takes a state whose published
  list holds no record with \<open>is_deleted = true\<close> to another such state, whether the
  action returns or throws; the state a store is created with is such a state, so every
  state reached by any sequence of actions is one.
\<close>

theorem published_lists_hold_no_deleted:
  "(tabs_visible tst \<longrightarrow> tabs_visible (tab_step tst tab_act))
   \<and> (collections_visible cst \<longrightarrow> collections_visible (collection_step cst col_act))
   \<and> (spaces_visible sst \<longrightarrow> spaces_visible (space_step sst spc_act))
   \<and> tabs_visible (tab_run tab_acts)
   \<and> collections_visible (collection_run col_acts)
   \<and> spaces_visible (space_run spc_acts)"
  using tab_step_visible collection_step_visible space_step_visible
    tab_run_visible collection_run_visible space_run_visible
  by blast

theorem published_lists_hold_no_deleted_witness:
  "tabs_visible two_store
   \<and> tabs_visible (tab_step two_store (DeleteTab ''tab-0'' ''2025-01-02T00:00:00.000Z'' True))
   \<and> tabs (tab_step two_store (DeleteTab ''tab-0'' ''2025-01-02T00:00:00.000Z'' True))
       = [sample_tab 1]
   \<and> collections_visible collection_store_init
   \<and> collections_visible (collection_step collection_store_init
         (AddCollection sample_collection_input ''col-1'' ''2025-01-02T00:00:00.000Z'' True))
   \<and> spaces_visible space_store_init
   \<and> spaces_visible (space_step space_store_init
         (AddSpace sample_space_input ''space-1'' ''2025-01-02T00:00:00.000Z'' True True))
   \<and> tabs_visible (tab_run
         [AddTab (sample_input ''https://a.test'' ''A'') ''tab-a'' ''2025-01-02T00:00:00.000Z'' True,
          DeleteTab ''tab-a'' ''2025-01-03T00:00:00.000Z'' True,
          LoadTabs True])
   \<and> collections_visible (collection_run
         [AddCollection sample_collection_input ''col-1'' ''2025-01-02T00:00:00.000Z'' True,
          DeleteCollection ''col-1'' ''2025-01-03T00:00:00.000Z'' True])
   \<and> spaces_visible (space_run
         [AddSpace sample_space_input ''space-1'' ''2025-01-02T00:00:00.000Z'' True True,
          DeleteSpace ''space-1'' ''2025-01-03T00:00:00.000Z'' True True])"
proof -
  have h1: "tabs_visible two_store"
    by (simp add: tabs_visible_def two_store_tabs sample_tab_def)
  have h2: "collections_visible collection_store_init"
    by (simp add: collections_visible_def collection_store_init_def)
  have h3: "spaces_visible space_store_init"
    by (simp add: spaces_visible_def space_store_init_def)
  have e: "tabs (tab_step two_store (DeleteTab ''tab-0'' ''2025-01-02T00:00:00.000Z'' True))
       = [sample_tab 1]"
    by (simp add: deleteTab_def two_store_tabs sample_tab_def toStringRadix_10_small
        truthy_flag_def Let_def)
  show ?thesis
    using h1 h2 h3 e
      published_lists_hold_no_deleted [of two_store
        "DeleteTab ''tab-0'' ''2025-01-02T00:00:00.000Z'' True"
        collection_store_init
        "AddCollection sample_collection_input ''col-1'' ''2025-01-02T00:00:00.000Z'' True"
        space_store_init
        "AddSpace sample_space_input ''space-1'' ''2025-01-02T00:00:00.000Z'' True True"
        "[AddTab (sample_input ''https://a.test'' ''A'') ''tab-a'' ''2025-01-02T00:00:00.000Z'' True,
          DeleteTab ''tab-a'' ''2025-01-03T00:00:00.000Z'' True,
          LoadTabs True]"
        "[AddCollection sample_collection_input ''col-1'' ''2025-01-02T00:00:00.000Z'' True,
          DeleteCollection ''col-1'' ''2025-01-03T00:00:00.000Z'' True]"
        "[AddSpace sample_space_input ''space-1'' ''2025-01-02T00:00:00.000Z'' True True,
          DeleteSpace ''space-1'' ''2025-01-03T00:00:00.000Z'' True True]"]
    by blast
qed

section \<open>Tombstones in storage\<close>

lemma tab_run_add_then_delete:
  "tab_run add_then_delete =
     \<lparr>tabs = [], t_isLoading = False, t_error = None,
      t_storage = Some [tab_a\<lparr>t_is_deleted := Some True,
                          t_updated_at := ''2025-01-03T00:00:00.000Z''\<rparr>]\<rparr>"
  by (simp add: tab_run_def add_then_delete_def tab_store_init_def addTab_def deleteTab_def
      sample_input_def tab_a_def truthy_flag_def MAX_TABS_PER_COLLECTION_def Let_def)

text \<open>
  C3. After \<open>addTab(A)\<close> and \<open>deleteTab(A.id)\<close> the persisted list holds A as a
  tombstone and the published list is empty. The next \<open>addTab(B)\<close> writes the published
  list extended by B, so the persisted list is \<open>[B]\<close>: the record A is gone from
  storage.
\<close>

theorem tombstone_erased_by_next_write:
  "t_storage (tab_run add_then_delete) =
     Some [tab_a\<lparr>t_is_deleted := Some True, t_updated_at := ''2025-01-03T00:00:00.000Z''\<rparr>]
   \<and> t_storage (tab_run add_delete_add) = Some [tab_b]"
proof -
  have "tab_run add_delete_add =
          tab_step (tab_run add_then_delete)
            (AddTab (sample_input ''https://b.test'' ''B'') ''tab-b''
               ''2025-01-04T00:00:00.000Z'' True)"
    by (simp add: tab_run_def add_delete_add_def)
  then have "t_storage (tab_run add_delete_add) = Some [tab_b]"
    by (simp add: tab_run_add_then_delete addTab_def sample_input_def tab_b_def
        MAX_TABS_PER_COLLECTION_def Let_def)
  then show ?thesis
    by (simp add: tab_run_add_then_delete)
qed

section \<open>Update and not-found\<close>

text \<open>
  C4, as stated, fails on a tombstone: after \<open>addTab(A)\<close> and \<open>deleteTab(A.id)\<close> the
  record A exists, soft-deleted, in the persisted list, and \<open>updateTab(A.id, ...)\<close>
  throws \<open>Tab not found\<close>.
\<close>

theorem update_tombstone_counterexample:
  "t_storage (tab_run add_then_delete) =
     Some [tab_a\<lparr>t_is_deleted := Some True, t_updated_at := ''2025-01-03T00:00:00.000Z''\<rparr>]
   \<and> t_id (tab_a\<lparr>t_is_deleted := Some True, t_updated_at := ''2025-01-03T00:00:00.000Z''\<rparr>)
       = ''tab-a''
   \<and> updateTab (tab_run add_then_delete) ''tab-a'' (no_patch\<lparr>uti_title := Some ''A2''\<rparr>)
         ''2025-01-04T00:00:00.000Z'' True
       = (Inl TabNotFound, tab_run add_then_delete)"
  by (simp add: tab_run_add_then_delete updateTab_def tab_a_def)

lemma findIndex_None_image: "findIndex (\<lambda>x. f x = k) xs = None \<longleftrightarrow> k \<notin> f ` set xs"
  by (auto simp: findIndex_None_iff)

lemma findIndex_Some_image: "findIndex (\<lambda>x. f x = k) xs = Some i \<Longrightarrow> k \<in> f ` set xs"
proof -
  assume "findIndex (\<lambda>x. f x = k) xs = Some i"
  then have "i < length xs \<and> f (xs ! i) = k"
    using findIndex_Some_D [of "\<lambda>x. f x = k" xs i] by simp
  then show ?thesis by (metis imageI nth_mem)
qed

lemma updateTab_not_found_iff:
  "fst (updateTab st k p now w) = Inl TabNotFound \<longleftrightarrow> k \<notin> t_id ` set (tabs st)"
proof (cases "findIndex (\<lambda>t. t_id t = k) (tabs st)")
  case None
  then show ?thesis
    using findIndex_None_image [of t_id k "tabs st"] by (simp add: updateTab_def)
next
  case (Some i)
  then show ?thesis
    using findIndex_Some_image [of t_id k "tabs st" i] by (simp add: updateTab_def Let_def)
qed

lemma updateCollection_not_found_iff:
  "fst (updateCollection st k p now w) = Inl CollectionNotFound
     \<longleftrightarrow> k \<notin> c_id ` set (collections st)"
proof (cases "findIndex (\<lambda>c. c_id c = k) (collections st)")
  case None
  then show ?thesis
    using findIndex_None_image [of c_id k "collections st"] by (simp add: updateCollection_def)
next
  case (Some i)
  then show ?thesis
    using findIndex_Some_image [of c_id k "collections st" i]
    by (simp add: updateCollection_def Let_def)
qed

lemma updateSpace_not_found_iff:
  "fst (updateSpace st k p now w) = Inl SpaceNotFound \<longleftrightarrow> k \<notin> s_id ` set (spaces st)"
proof (cases "findIndex (\<lambda>s. s_id s = k) (spaces st)")
  case None
  then show ?thesis
    using findIndex_None_image [of s_id k "spaces st"] by (simp add: updateSpace_def)
next
  case (Some i)
  then show ?thesis
    using findIndex_Some_image [of s_id k "spaces st" i] by (simp add: updateSpace_def Let_def)
qed

lemma marked_filtered_out:
  assumes "\<And>x. del (mark x)"
  shows "k \<notin> key ` set (filter (\<lambda>x. \<not> del x) (map (\<lambda>x. if key x = k then mark x else x) xs))"
  using assms by (induction xs) auto

lemma deleteTab_forgets_id: "k \<notin> t_id ` set (tabs (snd (deleteTab st k now True)))"
proof (cases "findIndex (\<lambda>t. t_id t = k) (tabs st)")
  case None
  then show ?thesis
    using findIndex_None_image [of t_id k "tabs st"] by (simp add: deleteTab_def)
next
  case (Some i)
  have "k \<notin> t_id ` set (filter (\<lambda>t. \<not> truthy_flag (t_is_deleted t))
          (map (\<lambda>t. if t_id t = k then t\<lparr>t_is_deleted := Some True, t_updated_at := now\<rparr> else t)
             (tabs st)))"
    by (rule marked_filtered_out) (simp add: truthy_flag_def)
  then show ?thesis
    using Some by (simp add: deleteTab_def Let_def)
qed

lemma deleteCollection_forgets_id:
  "k \<notin> c_id ` set (collections (snd (deleteCollection st k now True)))"
proof (cases "findIndex (\<lambda>c. c_id c = k) (collections st)")
  case None
  then show ?thesis
    using findIndex_None_image [of c_id k "collections st"] by (simp add: deleteCollection_def)
next
  case (Some i)
  have "k \<notin> c_id ` set (filter (\<lambda>c. \<not> truthy_flag (c_is_deleted c))
          (map (\<lambda>c. if c_id c = k then c\<lparr>c_is_deleted := Some True, c_updated_at := now\<rparr> else c)
             (collections st)))"
    by (rule marked_filtered_out) (simp add: truthy_flag_def)
  then show ?thesis
    using Some by (simp add: deleteCollection_def Let_def)
qed

lemma deleteSpace_forgets_id:
  "k \<notin> s_id ` set (spaces (snd (deleteSpace st k now True a)))"
proof (cases "findIndex (\<lambda>s. s_id s = k) (spaces st)")
  case None
  then show ?thesis
    using findIndex_None_image [of s_id k "spaces st"] by (simp add: deleteSpace_spaces)
next
  case (Some i)
  have "k \<notin> s_id ` set (filter (\<lambda>s. \<not> truthy_flag (s_is_deleted s))
          (map (\<lambda>s. if s_id s = k then s\<lparr>s_is_deleted := Some True, s_updated_at := now\<rparr> else s)
             (spaces st)))"
    by (rule marked_filtered_out) (simp add: truthy_flag_def)
  then show ?thesis
    using Some by (simp add: deleteSpace_spaces)
qed

text \<open>
  C4, amended. In each store \<open>update(id, patch)\<close> throws not-found exactly when \<open>id\<close> is
  the identifier of no record of the published (in-memory) list; the lookup does not
  look at \<open>is_deleted\<close>, but a soft-deleted record is not in that list: after a
  \<open>delete(id)\<close> whose write succeeded, \<open>update(id, patch)\<close> throws not-found.
\<close>

theorem update_not_found_iff_unpublished:
  "(fst (updateTab tst k tp now w) = Inl TabNotFound \<longleftrightarrow> k \<notin> t_id ` set (tabs tst))
   \<and> (fst (updateCollection cst k cp now w) = Inl CollectionNotFound
        \<longleftrightarrow> k \<notin> c_id ` set (collections cst))
   \<and> (fst (updateSpace sst k sp now w) = Inl SpaceNotFound \<longleftrightarrow> k \<notin> s_id ` set (spaces sst))
   \<and> fst (updateTab (snd (deleteTab tst k now' True)) k tp now w) = Inl TabNotFound
   \<and> fst (updateCollection (snd (deleteCollection cst k now' True)) k cp now w)
       = Inl CollectionNotFound
   \<and> fst (updateSpace (snd (deleteSpace sst k now' True a)) k sp now w) = Inl SpaceNotFound"
  by (simp only: updateTab_not_found_iff updateCollection_not_found_iff
      updateSpace_not_found_iff deleteTab_forgets_id deleteCollection_forgets_id
      deleteSpace_forgets_id simp_thms)

section \<open>Adding a Tab whose URL is already in the Collection\<close>

text \<open>
  C1, as stated, fails at the ceiling: the store holds 1000 non-deleted Tabs of one
  Collection, the first of them has the URL of the input, and \<open>addTab\<close> throws the
  capacity error instead of merging (the count is checked before the URL is looked up).
\<close>

theorem addTab_duplicate_at_capacity_counterexample:
  "tabs full_store ! 0 = sample_tab 0
   \<and> t_url (sample_tab 0) = cti_url (sample_input ''https://example.test/0'' ''Again'')
   \<and> t_collection_id (sample_tab 0)
       = cti_collection_id (sample_input ''https://example.test/0'' ''Again'')
   \<and> t_is_deleted (sample_tab 0) = None
   \<and> length (filter (\<lambda>t. t_collection_id t = ''col-1'' \<and> \<not> truthy_flag (t_is_deleted t))
         (tabs full_store)) = 1000
   \<and> addTab full_store (sample_input ''https://example.test/0'' ''Again'') ''tab-new''
         ''2025-01-02T00:00:00.000Z'' True = (Inl CollectionFull, full_store)"
proof -
  have a: "tabs full_store ! 0 = sample_tab 0"
    by (simp add: full_store_def store_of_def)
  have b: "t_url (sample_tab 0) = cti_url (sample_input ''https://example.test/0'' ''Again'')"
    by (simp add: sample_tab_def sample_input_def toStringRadix_10_small)
  have c: "t_collection_id (sample_tab 0)
       = cti_collection_id (sample_input ''https://example.test/0'' ''Again'')"
    by (simp add: sample_tab_def sample_input_def)
  have d: "t_is_deleted (sample_tab 0) = None"
    by (simp add: sample_tab_def)
  have e: "length (filter (\<lambda>t. t_collection_id t = ''col-1'' \<and> \<not> truthy_flag (t_is_deleted t))
         (tabs full_store)) = 1000"
    by (simp add: full_store_def store_of_def filter_map comp_def sample_tab_def
        truthy_flag_def)
  have f: "filter (\<lambda>t. t_collection_id t = ''col-1'') (tabs full_store) = tabs full_store"
    by (simp add: full_store_def store_of_def filter_map comp_def sample_tab_def)
  have g: "length (tabs full_store) = 1000"
    by (simp add: full_store_def store_of_def)
  have h: "addTab full_store (sample_input ''https://example.test/0'' ''Again'') ''tab-new''
         ''2025-01-02T00:00:00.000Z'' True = (Inl CollectionFull, full_store)"
    unfolding addTab_def Let_def
    by (simp add: sample_input_def f g MAX_TABS_PER_COLLECTION_def)
  show ?thesis
    by (intro conjI a b c d e h)
qed

lemma find_filter_conj: "find Q (filter P xs) = find (\<lambda>x. P x \<and> Q x) xs"
  by (induction xs) auto

lemma findIndex_distinct_key:
  "distinct (map f xs) \<Longrightarrow> i < length xs \<Longrightarrow> findIndex (\<lambda>x. f x = f (xs ! i)) xs = Some i"
proof (induction xs arbitrary: i)
  case Nil
  then show ?case by simp
next
  case (Cons x xs)
  show ?case
  proof (cases i)
    case 0
    then show ?thesis by simp
  next
    case (Suc k)
    with Cons.prems have "f x \<noteq> f (xs ! k)" by auto
    with Suc Cons show ?thesis by simp
  qed
qed

lemma length_filter_update:
  "i < length xs \<Longrightarrow> P v = P (xs ! i) \<Longrightarrow>
     length (filter P (xs[i := v])) = length (filter P xs)"
proof (induction xs arbitrary: i)
  case Nil
  then show ?case by simp
next
  case (Cons x xs)
  then show ?case by (cases i) auto
qed

lemma merge_patch:
  "patchTab t (no_patch\<lparr>uti_title := Some title, uti_favicon := Some fav\<rparr>) now
     = t\<lparr>t_title := title, t_favicon := fav, t_updated_at := now\<rparr>"
  by (simp add: patchTab_def no_patch_def spread_def)

text \<open>
  C1, amended. Let the input's URL be the URL of a Tab of the same Collection in the
  store, and let identifiers be distinct. If the store holds fewer than 1000 Tabs of that
  Collection, \<open>addTab\<close> is an update of the first such Tab (position \<open>i\<close>): it returns
  that Tab with the title and favicon of the input and a new update stamp, every other
  field and every other record as before; the list of identifiers, the length of the
  list and the number of non-deleted Tabs of every Collection are unchanged, and the
  updated list is what is persisted (a rejected write changes nothing). If the store
  holds 1000 Tabs of that Collection, the call throws the capacity error and changes
  nothing.
\<close>

theorem addTab_duplicate_url:
  assumes "distinct (map t_id (tabs st))"
    and "\<exists>t \<in> set (tabs st). t_collection_id t = cti_collection_id input
                              \<and> t_url t = cti_url input"
  shows "if length (filter (\<lambda>t. t_collection_id t = cti_collection_id input) (tabs st)) < 1000
         then \<exists>i < length (tabs st).
                t_collection_id (tabs st ! i) = cti_collection_id input
                \<and> t_url (tabs st ! i) = cti_url input
                \<and> (\<forall>j < i. \<not> (t_collection_id (tabs st ! j) = cti_collection_id input
                                \<and> t_url (tabs st ! j) = cti_url input))
                \<and> (let merged = (tabs st ! i)\<lparr>t_title := cti_title input,
                                   t_favicon := cti_favicon input, t_updated_at := now\<rparr>;
                        st' = st\<lparr>tabs := (tabs st)[i := merged],
                                 t_storage := Some ((tabs st)[i := merged])\<rparr>
                    in addTab st input uuid now write_ok
                         = (if write_ok then (Inr merged, st') else (Inl StorageRejected, st))
                       \<and> map t_id (tabs st') = map t_id (tabs st)
                       \<and> length (tabs st') = length (tabs st)
                       \<and> (\<forall>c. length (filter (\<lambda>t. t_collection_id t = c
                                                 \<and> \<not> truthy_flag (t_is_deleted t)) (tabs st'))
                              = length (filter (\<lambda>t. t_collection_id t = c
                                                 \<and> \<not> truthy_flag (t_is_deleted t)) (tabs st))))
         else addTab st input uuid now write_ok = (Inl CollectionFull, st)"
proof (cases "length (filter (\<lambda>t. t_collection_id t = cti_collection_id input) (tabs st)) < 1000")
  case False
  then show ?thesis
    by (simp add: addTab_def MAX_TABS_PER_COLLECTION_def)
next
  case True
  let ?m = "\<lambda>t. t_collection_id t = cti_collection_id input \<and> t_url t = cti_url input"
  from assms(2) have "findIndex ?m (tabs st) \<noteq> None"
    by (simp add: findIndex_None_iff)
  then obtain i where i: "findIndex ?m (tabs st) = Some i" by auto
  then have il: "i < length (tabs st)" and im: "?m (tabs st ! i)"
    and first: "\<forall>j<i. \<not> ?m (tabs st ! j)"
    using findIndex_Some_D [of ?m "tabs st" i] by simp_all
  let ?e = "tabs st ! i"
  let ?merged = "?e\<lparr>t_title := cti_title input, t_favicon := cti_favicon input,
                     t_updated_at := now\<rparr>"
  have fnd: "find (\<lambda>t. t_url t = cti_url input)
               (filter (\<lambda>t. t_collection_id t = cti_collection_id input) (tabs st)) = Some ?e"
    unfolding find_filter_conj using i by (simp add: find_as_findIndex)
  have idx: "findIndex (\<lambda>t. t_id t = t_id ?e) (tabs st) = Some i"
    using assms(1) il by (rule findIndex_distinct_key)
  have run: "addTab st input uuid now write_ok =
          (if write_ok
           then (Inr ?merged, st\<lparr>tabs := (tabs st)[i := ?merged],
                                 t_storage := Some ((tabs st)[i := ?merged])\<rparr>)
           else (Inl StorageRejected, st))"
    using True fnd idx
    by (simp add: addTab_def updateTab_def Let_def MAX_TABS_PER_COLLECTION_def merge_patch)
  have ids: "map t_id ((tabs st)[i := ?merged]) = map t_id (tabs st)"
    using il by (simp add: map_update list_update_same_conv)
  have cnt: "length (filter (\<lambda>t. t_collection_id t = c \<and> \<not> truthy_flag (t_is_deleted t))
                 ((tabs st)[i := ?merged]))
           = length (filter (\<lambda>t. t_collection_id t = c \<and> \<not> truthy_flag (t_is_deleted t))
                 (tabs st))" for c
    using il by (rule length_filter_update) simp
  show ?thesis
    using True il im first run ids cnt
    by (simp add: Let_def) blast
qed

theorem addTab_duplicate_url_witness:
  "distinct (map t_id (tabs two_store))
   \<and> sample_tab 1 \<in> set (tabs two_store)
   \<and> t_collection_id (sample_tab 1)
       = cti_collection_id (sample_input ''https://example.test/1'' ''New title'')
   \<and> t_url (sample_tab 1) = cti_url (sample_input ''https://example.test/1'' ''New title'')
   \<and> addTab two_store (sample_input ''https://example.test/1'' ''New title'') ''tab-new''
         ''2025-01-02T00:00:00.000Z'' True
       = (Inr ((sample_tab 1)\<lparr>t_title := ''New title'', t_favicon := None,
                  t_updated_at := ''2025-01-02T00:00:00.000Z''\<rparr>),
          two_store\<lparr>tabs := [sample_tab 0, (sample_tab 1)\<lparr>t_title := ''New title'',
                        t_favicon := None, t_updated_at := ''2025-01-02T00:00:00.000Z''\<rparr>],
             t_storage := Some [sample_tab 0, (sample_tab 1)\<lparr>t_title := ''New title'',
                        t_favicon := None, t_updated_at := ''2025-01-02T00:00:00.000Z''\<rparr>]\<rparr>)"
proof -
  let ?input = "sample_input ''https://example.test/1'' ''New title''"
  have h1: "distinct (map t_id (tabs two_store))"
    by (simp add: two_store_tabs sample_tab_def toStringRadix_10_small)
  have m: "sample_tab 1 \<in> set (tabs two_store)"
    by (simp add: two_store_tabs)
  have c: "t_collection_id (sample_tab 1) = cti_collection_id ?input"
    by (simp add: sample_tab_def sample_input_def)
  have u: "t_url (sample_tab 1) = cti_url ?input"
    by (simp add: sample_tab_def sample_input_def toStringRadix_10_small)
  have h2: "\<exists>t \<in> set (tabs two_store). t_collection_id t = cti_collection_id ?input
                              \<and> t_url t = cti_url ?input"
    using m c u by blast
  have n: "length (filter (\<lambda>t. t_collection_id t = cti_collection_id ?input) (tabs two_store))
             < 1000"
    by (simp add: two_store_tabs)
  have fav: "cti_favicon ?input = None" and title: "cti_title ?input = ''New title''"
    by (simp_all add: sample_input_def)
  from addTab_duplicate_url [OF h1 h2, where uuid = "''tab-new''"
      and now = "''2025-01-02T00:00:00.000Z''" and write_ok = True] n
  obtain i where i: "i < length (tabs two_store)" "t_url (tabs two_store ! i) = cti_url ?input"
    and r: "addTab two_store ?input ''tab-new'' ''2025-01-02T00:00:00.000Z'' True
       = (Inr ((tabs two_store ! i)\<lparr>t_title := ''New title'', t_favicon := None,
                  t_updated_at := ''2025-01-02T00:00:00.000Z''\<rparr>),
          two_store\<lparr>tabs := (tabs two_store)[i := (tabs two_store ! i)\<lparr>t_title := ''New title'',
                        t_favicon := None, t_updated_at := ''2025-01-02T00:00:00.000Z''\<rparr>],
             t_storage := Some ((tabs two_store)[i := (tabs two_store ! i)\<lparr>t_title := ''New title'',
                        t_favicon := None, t_updated_at := ''2025-01-02T00:00:00.000Z''\<rparr>])\<rparr>)"
    unfolding Let_def fav title by auto
  have "i = 1"
    using i
    by (cases i)
      (simp_all add: two_store_tabs sample_tab_def sample_input_def toStringRadix_10_small)
  with r have "addTab two_store ?input ''tab-new'' ''2025-01-02T00:00:00.000Z'' True
       = (Inr ((sample_tab 1)\<lparr>t_title := ''New title'', t_favicon := None,
                  t_updated_at := ''2025-01-02T00:00:00.000Z''\<rparr>),
          two_store\<lparr>tabs := [sample_tab 0, (sample_tab 1)\<lparr>t_title := ''New title'',
                        t_favicon := None, t_updated_at := ''2025-01-02T00:00:00.000Z''\<rparr>],
             t_storage := Some [sample_tab 0, (sample_tab 1)\<lparr>t_title := ''New title'',
                        t_favicon := None, t_updated_at := ''2025-01-02T00:00:00.000Z''\<rparr>]\<rparr>)"
    by (simp add: two_store_tabs)
  then show ?thesis
    using h1 m c u by simp
qed

section \<open>Order of a new record\<close>














section \<open>Protected requests\<close>

lemma snd_send: "snd (send fetch rq) = [rq]"
  by (simp add: send_def split: fetch_result.splits option.splits)

text \<open>
  C7. A request with \<open>requiresAuth\<close> set: when the session has no access token
  (\<open>null\<close>, or the empty string, which \<open>!access_token\<close> treats alike) or
  \<open>isTokenExpired()\<close> is true, the call throws \<open>ApiError(401)\<close> and no request has
  been handed to \<open>fetch\<close>. Otherwise exactly one request is handed to \<open>fetch\<close>, with
  the given method, the URL \<open>baseUrl + endpoint\<close> and the headers \<open>Content-Type\<close> and
  \<open>Authorization: Bearer token\<close>.
\<close>

theorem request_requires_auth:
  assumes "requiresAuth = Some True"
  shows "if access_token auth = None \<or> access_token auth = Some [] \<or> isTokenExpired auth now
         then request baseUrl auth now fetch method endpoint data requiresAuth
                = (Inl (ApiError 401 (JObj [(''message'', JStr ''Not authenticated'')])), [])
         else \<exists>tok rq. access_token auth = Some tok
                \<and> snd (request baseUrl auth now fetch method endpoint data requiresAuth) = [rq]
                \<and> rq_method rq = method
                \<and> rq_url rq = baseUrl @ endpoint
                \<and> rq_headers rq = [(''Content-Type'', ''application/json''),
                                    (''Authorization'', ''Bearer '' @ tok)]
                \<and> map_of (rq_headers rq) ''Authorization'' = Some (''Bearer '' @ tok)"
proof (cases "access_token auth")
  case None
  then show ?thesis
    using assms by (simp add: request_def truthy_flag_def)
next
  case (Some tok)
  show ?thesis
  proof (cases "tok = [] \<or> isTokenExpired auth now")
    case True
    then show ?thesis
      using assms Some by (auto simp: request_def truthy_flag_def)
  next
    case False
    then show ?thesis
      using assms Some by (simp add: request_def truthy_flag_def snd_send Let_def)
  qed
qed

theorem request_requires_auth_witness:
  "\<not> isTokenExpired signed_in 1700000000000
   \<and> request ''http://localhost:8000'' signed_in 1700000000000 fetch_no_content
        ''GET'' ''/api/v1/spaces'' None (Some True)
      = (Inr (JObj []),
         [\<lparr>rq_method = ''GET'', rq_url = ''http://localhost:8000/api/v1/spaces'',
           rq_headers = [(''Content-Type'', ''application/json''),
                         (''Authorization'', ''Bearer token-1'')],
           rq_body = None\<rparr>])
   \<and> isTokenExpired signed_in 1700003600001
   \<and> request ''http://localhost:8000'' signed_in 1700003600001 fetch_no_content
        ''GET'' ''/api/v1/spaces'' None (Some True)
      = (Inl (ApiError 401 (JObj [(''message'', JStr ''Not authenticated'')])), [])"
proof -
  have tok: "access_token signed_in = Some ''token-1''"
    by (simp add: signed_in_def)
  have fresh: "\<not> isTokenExpired signed_in 1700000000000"
    by (simp add: isTokenExpired_def signed_in_def truthy_num_def)
  have stale: "isTokenExpired signed_in 1700003600001"
    by (simp add: isTokenExpired_def signed_in_def truthy_num_def)
  have late: "request ''http://localhost:8000'' signed_in 1700003600001 fetch_no_content
        ''GET'' ''/api/v1/spaces'' None (Some True)
      = (Inl (ApiError 401 (JObj [(''message'', JStr ''Not authenticated'')])), [])"
    using request_requires_auth [of "Some True" signed_in 1700003600001
        "''http://localhost:8000''" fetch_no_content "''GET''" "''/api/v1/spaces''" None]
      stale by simp
  have early: "request ''http://localhost:8000'' signed_in 1700000000000 fetch_no_content
        ''GET'' ''/api/v1/spaces'' None (Some True)
      = (Inr (JObj []),
         [\<lparr>rq_method = ''GET'', rq_url = ''http://localhost:8000/api/v1/spaces'',
           rq_headers = [(''Content-Type'', ''application/json''),
                         (''Authorization'', ''Bearer token-1'')],
           rq_body = None\<rparr>])"
    using fresh
    by (simp add: request_def send_def fetch_no_content_def truthy_flag_def tok
        response_ok_def Let_def)
  show ?thesis
    by (intro conjI fresh early stale late)
qed

section \<open>The signature is the hexadecimal keyed hash of the canonical string\<close>

lemma lt16_cases:
  "d < 16 \<Longrightarrow> d = 0 \<or> d = 1 \<or> d = 2 \<or> d = 3 \<or> d = 4 \<or> d = 5 \<or> d = 6 \<or> d = 7 \<or> d = 8
     \<or> d = 9 \<or> d = 10 \<or> d = 11 \<or> d = 12 \<or> d = 13 \<or> d = 14 \<or> d = (15::nat)"
  by arith

lemma hex_value_digitChar:
  assumes "d < 16" shows "hex_value (digitChar d) = Some d"
  using lt16_cases [OF assms] by (elim disjE) (simp_all add: digitChar_def hex_value_def)

lemma digitChar_hex:
  assumes "d < 16" shows "digitChar d \<in> set ''0123456789abcdef''"
  using lt16_cases [OF assms] by (elim disjE) (simp_all add: digitChar_def)

lemma decimal_digit_digitChar:
  assumes "d < 10" shows "decimal_digit (digitChar d) = Some d"
proof -
  from assms have "d < 16" by simp
  from lt16_cases [OF this] assms show ?thesis
    by (elim disjE) (simp_all add: digitChar_def decimal_digit_def)
qed

lemma digitChar_zero:
  assumes "d < 10" shows "digitChar d = CHR ''0'' \<longleftrightarrow> d = 0"
proof -
  from assms have "d < 16" by simp
  from lt16_cases [OF this] assms show ?thesis
    by (elim disjE) (simp_all add: digitChar_def)
qed

lemma toStringRadix_16_byte:
  assumes "n < 256"
  shows "padStart 2 (CHR ''0'') (toStringRadix 16 n) = [digitChar (n div 16), digitChar (n mod 16)]"
proof (cases "n < 16")
  case True
  then show ?thesis
    by (simp add: toStringRadix.simps [of 16 n] padStart_def digitChar_def)
next
  case False
  with assms have "n div 16 < 16" by simp
  then have "toStringRadix 16 (n div 16) = [digitChar (n div 16)]"
    by (simp add: toStringRadix.simps [of 16 "n div 16"])
  with False show ?thesis
    by (simp add: toStringRadix.simps [of 16 n] padStart_def)
qed

lemma unat_byte: "unat (b :: 8 word) < 256"
proof -
  have "unat b < 2 ^ LENGTH(8)" by (rule unsigned_less)
  then show ?thesis by simp
qed

lemma hex_byte:
  "padStart 2 (CHR ''0'') (toStringRadix 16 (unat (b :: 8 word)))
     = [digitChar (unat b div 16), digitChar (unat b mod 16)]"
proof -
  show ?thesis using unat_byte by (rule toStringRadix_16_byte)
qed

lemma hex_decode_encode:
  "hex_decode (concat (map (\<lambda>b. padStart 2 (CHR ''0'') (toStringRadix 16 (unat b))) bs)) = Some bs"
proof (induction bs)
  case Nil
  then show ?case by simp
next
  case (Cons b bs)
  have lt: "unat b < 256" by (rule unat_byte)
  then have h: "unat b div 16 < 16" and l: "unat b mod 16 < 16" by simp_all
  have "word_of_nat (16 * (unat b div 16) + unat b mod 16) = b"
    by simp
  with Cons h l show ?case
    by (simp add: hex_byte hex_value_digitChar)
qed

lemma hex_length:
  "length (concat (map (\<lambda>b. padStart 2 (CHR ''0'') (toStringRadix 16 (unat (b :: 8 word)))) bs))
     = 2 * length bs"
  by (induction bs) (simp_all add: hex_byte)

lemma hex_chars:
  "set (concat (map (\<lambda>b. padStart 2 (CHR ''0'') (toStringRadix 16 (unat (b :: 8 word)))) bs))
     \<subseteq> set ''0123456789abcdef''"
proof (induction bs)
  case Nil
  then show ?case by simp
next
  case (Cons b bs)
  have lt: "unat b < 256" by (rule unat_byte)
  then have h: "unat b div 16 < 16" and l: "unat b mod 16 < 16" by simp_all
  show ?case
    using Cons digitChar_hex [OF h] digitChar_hex [OF l]
    by (simp add: hex_byte)
qed

lemma decimal_value_from_append:
  "decimal_value_from acc (xs @ ys) =
     (case decimal_value_from acc xs of None \<Rightarrow> None | Some v \<Rightarrow> decimal_value_from v ys)"
  by (induction xs arbitrary: acc) (simp_all split: option.splits)

lemma decimal_value_from_toString:
  "decimal_value_from 0 (toStringRadix 10 n) = Some n"
proof (induction n rule: less_induct)
  case (less n)
  show ?case
  proof (cases "n < 10")
    case True
    then show ?thesis
      by (simp add: toStringRadix.simps [of 10 n] decimal_digit_digitChar)
  next
    case False
    then have "n div 10 < n" by simp
    then have ih: "decimal_value_from 0 (toStringRadix 10 (n div 10)) = Some (n div 10)"
      by (rule less.IH)
    have m: "n mod 10 < 10" by simp
    show ?thesis
      using False ih decimal_digit_digitChar [OF m]
      by (simp add: toStringRadix.simps [of 10 n] decimal_value_from_append)
  qed
qed

lemma toStringRadix_10_nonempty: "toStringRadix 10 n \<noteq> []"
  by (simp add: toStringRadix.simps [of 10 n])

lemma toStringRadix_10_hd:
  "hd (toStringRadix 10 n) = CHR ''0'' \<Longrightarrow> n = 0"
proof (induction n rule: less_induct)
  case (less n)
  show ?case
  proof (cases "n < 10")
    case True
    then show ?thesis
      using less.prems digitChar_zero [of n] by (simp add: toStringRadix.simps [of 10 n])
  next
    case False
    then have lt: "n div 10 < n" by simp
    have "hd (toStringRadix 10 (n div 10)) = CHR ''0''"
      using False less.prems toStringRadix_10_nonempty [of "n div 10"]
      by (simp add: toStringRadix.simps [of 10 n])
    then have "n div 10 = 0" using less.IH [OF lt] by simp
    with False show ?thesis by simp
  qed
qed

lemma decimal_value_toString: "decimal_value (toStringRadix 10 n) = Some n"
proof -
  have "\<not> (length (toStringRadix 10 n) > 1 \<and> hd (toStringRadix 10 n) = CHR ''0'')"
  proof
    assume a: "length (toStringRadix 10 n) > 1 \<and> hd (toStringRadix 10 n) = CHR ''0''"
    then have "n = 0" using toStringRadix_10_hd by blast
    then have "length (toStringRadix 10 n) = 1" by (simp add: toStringRadix_10_small)
    with a show False by simp
  qed
  then show ?thesis
    by (simp add: decimal_value_def toStringRadix_10_nonempty decimal_value_from_toString)
qed

text \<open>
  C8. With a keyed hash of 32 bytes of output (as HMAC-SHA-256 has), \<open>generateSignature\<close>
  returns 64 characters, all among \<open>0123456789abcdef\<close>, which read back as hexadecimal
  are exactly the bytes of the keyed hash, under the bytes of the signing secret (the
  configured \<open>VITE_SIGNATURE_SECRET\<close> when it is set and not empty, the default
  \<open>default_secret_key\<close> otherwise), of the bytes of the string \<open>email:nonce:d:purpose\<close>.
  Here \<open>d\<close> is the rendering of \<open>authAt\<close>: for a non-negative integer below \<open>2^53\<close>
  (Unix seconds are) the decimal numeral of \<open>authAt\<close>; for a negative integer above
  \<open>-2^53\<close> a minus sign and the decimal numeral of its magnitude; for a number that is
  not an integer, what \<open>Number::toString\<close> prints.
\<close>

theorem generateSignature_hex_hmac:
  assumes "\<And>key msg. length (sign key msg) = 32"
  shows "\<exists>d. hex_decode (generateSignature sign render env mail nonce authAt purpose)
               = Some (sign (map (\<lambda>c. word_of_nat (of_char c))
                               (case env of None \<Rightarrow> ''default_secret_key''
                                | Some s \<Rightarrow> if s = [] then ''default_secret_key'' else s))
                            (map (\<lambda>c. word_of_nat (of_char c))
                               (mail @ '':'' @ nonce @ '':'' @ d @ '':'' @ purpose)))
           \<and> length (generateSignature sign render env mail nonce authAt purpose) = 64
           \<and> set (generateSignature sign render env mail nonce authAt purpose)
               \<subseteq> set ''0123456789abcdef''
           \<and> (\<forall>n. authAt = JsInteger (int n) \<and> n < 2 ^ 53 \<longrightarrow> decimal_value d = Some n)
           \<and> (\<forall>n. authAt = JsInteger (- int n) \<and> 0 < n \<and> n < 2 ^ 53
                  \<longrightarrow> (\<exists>m. d = CHR ''-'' # m \<and> decimal_value m = Some n))
           \<and> (\<forall>s. authAt = JsOther s \<longrightarrow> d = s)"
proof -
  let ?d = "numberToString render authAt"
  let ?key = "case env of None \<Rightarrow> ''default_secret_key''
                | Some s \<Rightarrow> if s = [] then ''default_secret_key'' else s"
  let ?bs = "sign (map (\<lambda>c. word_of_nat (of_char c)) ?key)
               (map (\<lambda>c. word_of_nat (of_char c))
                  (mail @ '':'' @ nonce @ '':'' @ ?d @ '':'' @ purpose))"
  let ?g = "generateSignature sign render env mail nonce authAt purpose"
  have k: "SIGNATURE_SECRET env = ?key"
    by (simp add: SIGNATURE_SECRET_def or_default_def)
  have g: "?g = concat (map (\<lambda>b. padStart 2 (CHR ''0'') (toStringRadix 16 (unat b))) ?bs)"
    unfolding generateSignature_def Let_def k encode_def by (rule refl)
  have dec: "decimal_value ?d = Some n" if "authAt = JsInteger (int n)" "n < 2 ^ 53" for n
    using that by (simp add: numberToString_def decimal_value_toString)
  have neg: "\<exists>m. ?d = CHR ''-'' # m \<and> decimal_value m = Some n"
    if "authAt = JsInteger (- int n)" "0 < n" "n < 2 ^ 53" for n
    using that by (simp add: numberToString_def decimal_value_toString)
  have oth: "?d = s" if "authAt = JsOther s" for s
    using that by (simp add: numberToString_def)
  have "hex_decode ?g = Some ?bs"
    unfolding g by (rule hex_decode_encode)
  moreover have "length ?g = 64"
    unfolding g hex_length using assms by simp
  moreover have "set ?g \<subseteq> set ''0123456789abcdef''"
    unfolding g by (rule hex_chars)
  ultimately show ?thesis
    using dec neg oth by blast
qed

lemma dec_1700000000: "toStringRadix 10 1700000000 = ''1700000000''"
  by (simp add: toStringRadix.simps digitChar_def)

lemma dec_small: "toStringRadix 10 7 = ''7''" "toStringRadix 10 5 = ''5''"
  by (simp_all add: toStringRadix.simps digitChar_def)

theorem generateSignature_hex_hmac_witness:
  "length (generateSignature sign_32 no_render (Some ''k1'') ''alice@ab.c'' ''n1''
             (JsInteger 1700000000) ''login'') = 64
   \<and> generateSignature sign_32 no_render (Some ''k1'') ''alice@ab.c'' ''n1''
        (JsInteger 1700000000) ''login''
       = ''6b31616c6963654061622e633a6e313a313730303030303030303a6c6f67696e''
   \<and> generateSignature sign_32 no_render None ''ali'' ''n1'' (JsInteger 7) ''login''
       = ''64656661756c745f7365637265745f6b6579616c693a6e313a373a6c6f67696e''
   \<and> generateSignature sign_32 no_render (Some ''k1'') ''alice@example.org'' ''n12'' (JsInteger (- 5)) ''login''
       = ''6b31616c696365406578616d706c652e6f72673a6e31323a2d353a6c6f67696e''"
proof -
  have h: "length (sign_32 key msg) = 32" for key msg
    by (simp add: sign_32_def)
  have l: "length (generateSignature sign_32 no_render (Some ''k1'') ''alice@ab.c'' ''n1''
             (JsInteger 1700000000) ''login'') = 64"
    using generateSignature_hex_hmac [of sign_32 no_render "Some ''k1''" "''alice@ab.c''" "''n1''"
        "JsInteger 1700000000" "''login''", OF h] by blast
  have v1: "generateSignature sign_32 no_render (Some ''k1'') ''alice@ab.c'' ''n1''
        (JsInteger 1700000000) ''login''
       = ''6b31616c6963654061622e633a6e313a313730303030303030303a6c6f67696e''"
    by (simp add: generateSignature_def numberToString_def Let_def dec_1700000000
        SIGNATURE_SECRET_def or_default_def encode_def sign_32_def padStart_def
        toStringRadix.simps digitChar_def)
  have v2: "generateSignature sign_32 no_render None ''ali'' ''n1'' (JsInteger 7) ''login''
       = ''64656661756c745f7365637265745f6b6579616c693a6e313a373a6c6f67696e''"
    by (simp add: generateSignature_def numberToString_def Let_def dec_small
        SIGNATURE_SECRET_def or_default_def encode_def sign_32_def padStart_def
        toStringRadix.simps digitChar_def)
  have v3: "generateSignature sign_32 no_render (Some ''k1'') ''alice@example.org'' ''n12'' (JsInteger (- 5)) ''login''
       = ''6b31616c696365406578616d706c652e6f72673a6e31323a2d353a6c6f67696e''"
    by (simp add: generateSignature_def numberToString_def Let_def dec_small
        SIGNATURE_SECRET_def or_default_def encode_def sign_32_def padStart_def
        toStringRadix.simps digitChar_def)
  show ?thesis
    by (intro conjI l v1 v2 v3)
qed

end
